theory Spec2Isabelle
  imports Main "HOL-Library.AList"
begin

section \<open>Connections and aggregator resolution (package modconfig)\<close>

text \<open>
  A Go \<^verbatim>\<open>*Connection\<close> is an address into a store of connection structs. The
  connection map handed to \<^verbatim>\<open>PopulateChildren\<close> usually holds the aggregator itself
  under its own name, so the store keeps that sharing visible. An address without a
  struct behind it stands for a nil pointer: reading a field through it panics.
\<close>

type_synonym ptr = nat

datatype panic = NilDereference

record Pos =
  Line :: int
  Column :: int
  Byte :: int

record Range =
  Filename :: string
  Start :: Pos
  End :: Pos

text \<open>
  The struct \<^verbatim>\<open>Connection\<close>. A Go map \<^verbatim>\<open>map[string]*Connection\<close> is an association
  list with distinct keys; \<^verbatim>\<open>map_of\<close> is the lookup. The field \<^verbatim>\<open>Options\<close> (a pointer
  into the options package) is left out: none of the functions below reads it.
\<close>

record Connection =
  Name :: string
  PluginShortName :: string
  Plugin :: string
  Type :: string
  ConnectionNames :: "string list"
  Connections :: "(string \<times> ptr) list"
  ResolvedConnectionNames :: "string list"
  Config :: string
  DeclRange :: Range

type_synonym store = "ptr \<rightharpoonup> Connection"

definition ConnectionTypeAggregator :: string where
  "ConnectionTypeAggregator = ''aggregator''"

text \<open>
  The inner loop of \<^verbatim>\<open>PopulateChildren\<close>: \<^verbatim>\<open>for name, connection := range connectionMap\<close>
  with the child name taken as a pattern. The list argument is the sequence of entries
  in the order the range statement visits them. \<^verbatim>\<open>path.Match\<close> belongs to the Go
  standard library and is a parameter; the source drops its error result.
\<close>

fun wildcardLoop ::
  "store \<Rightarrow> (string \<Rightarrow> string \<Rightarrow> bool) \<Rightarrow> string \<Rightarrow> string \<Rightarrow>
   (string \<times> ptr) list \<Rightarrow> (string \<times> ptr) list \<Rightarrow> panic + (string \<times> ptr) list" where
  "wildcardLoop h pathMatch cPlugin childName [] conns = Inr conns"
| "wildcardLoop h pathMatch cPlugin childName ((name, p) # rest) conns =
     (case h p of
        None \<Rightarrow> Inl NilDereference
      | Some connection \<Rightarrow>
          if Type connection = ConnectionTypeAggregator
          then wildcardLoop h pathMatch cPlugin childName rest conns
          else if map_of conns name \<noteq> None
          then wildcardLoop h pathMatch cPlugin childName rest conns
          else if pathMatch childName name
          then (if Plugin connection = cPlugin
                then wildcardLoop h pathMatch cPlugin childName rest
                       (AList.update name p conns)
                else wildcardLoop h pathMatch cPlugin childName rest conns)
          else wildcardLoop h pathMatch cPlugin childName rest conns)"

text \<open>The outer loop: \<^verbatim>\<open>for _, childName := range c.ConnectionNames\<close>.\<close>

fun childLoop ::
  "store \<Rightarrow> (string \<Rightarrow> string \<Rightarrow> bool) \<Rightarrow> string \<Rightarrow> (string \<times> ptr) list \<Rightarrow>
   string list \<Rightarrow> (string \<times> ptr) list \<Rightarrow> panic + (string \<times> ptr) list" where
  "childLoop h pathMatch cPlugin connectionMap [] conns = Inr conns"
| "childLoop h pathMatch cPlugin connectionMap (childName # names) conns =
     (case map_of connectionMap childName of
        Some childConnection \<Rightarrow>
          childLoop h pathMatch cPlugin connectionMap names
            (AList.update childName childConnection conns)
      | None \<Rightarrow>
          (case wildcardLoop h pathMatch cPlugin childName connectionMap conns of
             Inl e \<Rightarrow> Inl e
           | Inr conns' \<Rightarrow> childLoop h pathMatch cPlugin connectionMap names conns'))"

text \<open>
  \<^verbatim>\<open>func (c *Connection) PopulateChildren(connectionMap map[string]*Connection)\<close>.
  The receiver is the address \<open>self\<close>. The loops read only the fields \<^verbatim>\<open>Type\<close> and
  \<^verbatim>\<open>Plugin\<close>, which the function never writes, so the new \<^verbatim>\<open>Connections\<close> map is
  stored once the loops are done. \<^verbatim>\<open>maps.Keys\<close> returns the keys in an order Go
  leaves open; here it is the order of insertion.
\<close>

definition PopulateChildren ::
  "(string \<Rightarrow> string \<Rightarrow> bool) \<Rightarrow> store \<Rightarrow> ptr \<Rightarrow> (string \<times> ptr) list \<Rightarrow> panic + store" where
  "PopulateChildren pathMatch h self connectionMap =
     (case h self of
        None \<Rightarrow> Inl NilDereference
      | Some c \<Rightarrow>
          (case childLoop h pathMatch (Plugin c) connectionMap (ConnectionNames c) [] of
             Inl e \<Rightarrow> Inl e
           | Inr conns \<Rightarrow>
               Inr (h(self \<mapsto> c\<lparr>Connections := conns,
                                 ResolvedConnectionNames := map fst conns\<rparr>))))"

text \<open>
  \<^verbatim>\<open>func (c *Connection) ValidateAggregatorConnection() (warnings, errors []string)\<close>.
  The messages are built with \<^verbatim>\<open>fmt.Sprintf\<close>; the model keeps, for each message, the
  names it is built from.
\<close>

datatype validation_message =
    NoChildren string
  | PluginMismatch string string string string

fun validateChildren :: "store \<Rightarrow> Connection \<Rightarrow> (string \<times> ptr) list \<Rightarrow>
    panic + validation_message list" where
  "validateChildren h c [] = Inr []"
| "validateChildren h c ((name, p) # rest) =
     (case h p of
        None \<Rightarrow> Inl NilDereference
      | Some childConnection \<Rightarrow>
          (case validateChildren h c rest of
             Inl e \<Rightarrow> Inl e
           | Inr errs \<Rightarrow>
               if Plugin childConnection \<noteq> Plugin c
               then Inr (PluginMismatch (Name c) (Plugin c) (Name childConnection)
                           (Plugin childConnection) # errs)
               else Inr errs))"

definition ValidateAggregatorConnection ::
  "store \<Rightarrow> ptr \<Rightarrow> panic + (validation_message list \<times> validation_message list)" where
  "ValidateAggregatorConnection h self =
     (case h self of
        None \<Rightarrow> Inl NilDereference
      | Some c \<Rightarrow>
          if length (Connections c) = 0 then Inr ([NoChildren (Name c)], [])
          else (case validateChildren h c (Connections c) of
                  Inl e \<Rightarrow> Inl e
                | Inr errs \<Rightarrow> Inr ([], errs)))"

text \<open>
  A pattern matcher to run the functions on concrete inputs: \<open>*\<close> stands for any run
  of bytes other than \<open>/\<close>, and every other byte for itself. On patterns without
  \<open>?\<close>, \<open>[\<close> and the backslash, which \<^verbatim>\<open>path.Match\<close> reads as syntax, it
  agrees with \<^verbatim>\<open>path.Match\<close>.
\<close>

fun starMatch :: "string \<Rightarrow> string \<Rightarrow> bool" where
  "starMatch [] name = (name = [])"
| "starMatch (c # pat) [] = (c = CHR ''*'' \<and> starMatch pat [])"
| "starMatch (c # pat) (d # name) =
     (if c = CHR ''*''
      then starMatch pat (d # name) \<or> (d \<noteq> CHR ''/'' \<and> starMatch (c # pat) name)
      else c = d \<and> starMatch pat name)"


text \<open>
  What the wildcard path asks of a candidate \<open>p\<close> stored under \<open>name\<close> before it adds
  it for the pattern \<open>childName\<close>: it is no aggregator, the pattern matches its name and
  its plugin is the aggregator's.
\<close>

definition wildcardAdmits :: "store \<Rightarrow> (string \<Rightarrow> string \<Rightarrow> bool) \<Rightarrow> string \<Rightarrow> string \<Rightarrow> string \<Rightarrow> ptr \<Rightarrow> bool" where
  "wildcardAdmits h pathMatch cPlugin childName name p =
     (case h p of None \<Rightarrow> False
      | Some connection \<Rightarrow> Type connection \<noteq> ConnectionTypeAggregator \<and>
          pathMatch childName name \<and> Plugin connection = cPlugin)"



text \<open>
  Connections to run the resolution on. In the first store the aggregator \<open>A\<close> of
  plugin \<open>P\<close> lists \<open>b*\<close> and \<open>c\<close>, and the map holds \<open>A\<close>, \<open>b1\<close> and \<open>c\<close> of
  plugin \<open>P\<close>, \<open>b2\<close> of plugin \<open>Q\<close> and a second aggregator \<open>b3\<close>. In the second
  store \<open>A\<close> lists itself and \<open>c\<close>, which is of plugin \<open>Q\<close>.
\<close>

definition newConnection :: "string \<Rightarrow> string \<Rightarrow> string \<Rightarrow> string list \<Rightarrow> Connection" where
  "newConnection name plugin type children =
     \<lparr>Name = name, PluginShortName = plugin, Plugin = plugin, Type = type,
      ConnectionNames = children, Connections = [], ResolvedConnectionNames = [],
      Config = [],
      DeclRange = \<lparr>Filename = [], Start = \<lparr>Line = 0, Column = 0, Byte = 0\<rparr>,
                   End = \<lparr>Line = 0, Column = 0, Byte = 0\<rparr>\<rparr>\<rparr>"



definition mixedStore :: store where
  "mixedStore = map_of
     [(0, newConnection ''A'' ''P'' ''aggregator'' [''A'', ''c'']),
      (1, newConnection ''c'' ''Q'' [] [])]"

definition mixedMap :: "(string \<times> ptr) list" where
  "mixedMap = [(''A'', 0), (''c'', 1)]"


section \<open>Go strings\<close>

text \<open>
  A Go string is a sequence of bytes. The functions of package \<^verbatim>\<open>strings\<close> that the
  interactive client calls are modelled on bytes, with the Unicode reading Go gives them.
\<close>

definition newline :: string where
  "newline = [CHR 0x0A]"

definition HasSuffix :: "string \<Rightarrow> string \<Rightarrow> bool" where
  "HasSuffix s suffix =
     (length suffix \<le> length s \<and> drop (length s - length suffix) s = suffix)"

fun Join :: "string list \<Rightarrow> string \<Rightarrow> string" where
  "Join [] sep = []"
| "Join [a] sep = a"
| "Join (a # b # rest) sep = a @ sep @ Join (b # rest) sep"

text \<open>
  \<^verbatim>\<open>strings.Split\<close> for a separator of one byte, which is how the source calls it:
  \<open>n\<close> separators give \<open>n + 1\<close> pieces, and the empty string gives one empty piece.
\<close>

fun Split :: "string \<Rightarrow> char \<Rightarrow> string list" where
  "Split [] sep = [[]]"
| "Split (c # cs) sep =
     (if c = sep then [] # Split cs sep
      else (case Split cs sep of
              [] \<Rightarrow> [[c]]
            | piece # pieces \<Rightarrow> (c # piece) # pieces))"

text \<open>
  The UTF-8 encodings of the code points with the Unicode property White_Space, which is
  what \<^verbatim>\<open>unicode.IsSpace\<close> tests: U+0009 to U+000D, U+0020, U+0085, U+00A0, U+1680,
  U+2000 to U+200A, U+2028, U+2029, U+202F, U+205F and U+3000.
\<close>

definition spaceRunes :: "string list" where
  "spaceRunes =
     [[CHR 0x09], [CHR 0x0A], [CHR 0x0B], [CHR 0x0C], [CHR 0x0D], [CHR 0x20],
      [CHR 0xC2, CHR 0x85], [CHR 0xC2, CHR 0xA0],
      [CHR 0xE1, CHR 0x9A, CHR 0x80],
      [CHR 0xE2, CHR 0x80, CHR 0x80], [CHR 0xE2, CHR 0x80, CHR 0x81],
      [CHR 0xE2, CHR 0x80, CHR 0x82], [CHR 0xE2, CHR 0x80, CHR 0x83],
      [CHR 0xE2, CHR 0x80, CHR 0x84], [CHR 0xE2, CHR 0x80, CHR 0x85],
      [CHR 0xE2, CHR 0x80, CHR 0x86], [CHR 0xE2, CHR 0x80, CHR 0x87],
      [CHR 0xE2, CHR 0x80, CHR 0x88], [CHR 0xE2, CHR 0x80, CHR 0x89],
      [CHR 0xE2, CHR 0x80, CHR 0x8A],
      [CHR 0xE2, CHR 0x80, CHR 0xA8], [CHR 0xE2, CHR 0x80, CHR 0xA9],
      [CHR 0xE2, CHR 0x80, CHR 0xAF],
      [CHR 0xE2, CHR 0x81, CHR 0x9F],
      [CHR 0xE3, CHR 0x80, CHR 0x80]]"

text \<open>The number of bytes of the rune of \<open>runes\<close> that \<open>s\<close> starts with, or 0.\<close>

definition runeWidth :: "string list \<Rightarrow> string \<Rightarrow> nat" where
  "runeWidth runes s =
     (case find (\<lambda>r. take (length r) s = r) runes of
        None \<Rightarrow> 0
      | Some r \<Rightarrow> length r)"

function trimLeading :: "string list \<Rightarrow> string \<Rightarrow> string" where
  "trimLeading runes [] = []"
| "trimLeading runes (c # cs) =
     (case runeWidth runes (c # cs) of
        0 \<Rightarrow> c # cs
      | Suc n \<Rightarrow> trimLeading runes (drop n cs))"
  by pat_completeness auto
termination
  by (relation "measure (\<lambda>(runes, s). length s)") auto

text \<open>
  \<^verbatim>\<open>strings.TrimSpace\<close>: white space is cut from the front rune by rune, then from
  the back; from the back the encodings are read in reverse.
\<close>

definition TrimSpace :: "string \<Rightarrow> string" where
  "TrimSpace s = rev (trimLeading (map rev spaceRunes) (rev (trimLeading spaceRunes s)))"

section \<open>The interactive client (package interactive)\<close>

datatype AfterPromptCloseAction = AfterPromptCloseExit | AfterPromptCloseRestart

text \<open>
  What the client does to the world outside its own fields: each call into a
  collaborator is appended to the client's \<open>effects\<close>, in the order the calls are made.
\<close>

datatype effect =
    ExecutionLocked
  | ExecutionUnlocked
  | HistoryPush string
  | HistoryPersist
  | ShowError string
  | PromptCancelled
  | QueryCancelled nat
  | StatusShow
  | StatusDone
  | StatusMessage
  | PromptRender
  | PromptStarted
  | PromptContextCreated
  | CancelHandlerStarted
  | PromptLineCleared
  | MetaqueryMessage string
  | MetaqueryHandled string
  | QueryExecuted string "string list"
  | ResultStreamed string
  | ErrorTimingDisplayed
  | NotificationListenerCancelled
  | QuitSent
  | QuitClosed
  | InitDataCleanup
  | StreamerClosed

text \<open>
  The fields of \<^verbatim>\<open>InteractiveClient\<close> that the functions below read or write. A nil
  slice and an empty slice are both \<open>[]\<close>. A cancel function is the number of the context
  it cancels; \<open>None\<close> is nil. \<open>queryContexts\<close> counts the query contexts created so
  far and names the next one.
\<close>

record InteractiveClient =
  interactiveBuffer :: "string list"
  initialisationComplete :: bool
  afterClose :: AfterPromptCloseAction
  cancelActiveQuery :: "nat option"
  cancelNotificationListener :: "unit option"
  hidePrompt :: bool
  autocompleteOnEmpty :: bool
  queryContexts :: nat
  effects :: "effect list"

record ResolvedQuery =
  ExecuteSQL :: string
  Args :: "string list"

record ValidationResult =
  Message :: string
  Err :: "string option"
  ShouldRun :: bool

text \<open>
  The collaborators outside the repository's files, as parameters: the two
  configuration flags read through viper, \<^verbatim>\<open>metaquery.IsMetaQuery\<close>, the workspace's
  \<^verbatim>\<open>ResolveQueryAndArgsFromSQLString\<close> (an error, or the resolved query and the
  query provider, \<open>None\<close> for nil), the outcome of waiting for the initialisation
  (\<open>None\<close> when it succeeds), the database client's \<^verbatim>\<open>Execute\<close>, and
  \<^verbatim>\<open>metaquery.Validate\<close> and \<^verbatim>\<open>metaquery.Handle\<close> (whether the handler called
  its \<^verbatim>\<open>ClosePrompt\<close> callback, and its error). An error is its message.
\<close>

record Env =
  ArgMultiLine :: bool
  ArgTiming :: bool
  IsMetaQuery :: "string \<Rightarrow> bool"
  ResolveQueryAndArgsFromSQLString :: "string \<Rightarrow> string + (ResolvedQuery \<times> string option)"
  initDataError :: "string option"
  Execute :: "string \<Rightarrow> string list \<Rightarrow> string + string"
  Validate :: "string \<Rightarrow> ValidationResult"
  Handle :: "string \<Rightarrow> bool \<times> string option"

definition effect :: "effect \<Rightarrow> InteractiveClient \<Rightarrow> InteractiveClient" where
  "effect e c = c\<lparr>effects := effects c @ [e]\<rparr>"

text \<open>
  Modelled from the spec: \<^verbatim>\<open>isInitialised\<close> is defined in another file of the
  package. A ready initialisation result "flips an initialised flag read by the Input
  Resolver and Dispatcher"; the struct's comment calls \<^verbatim>\<open>initialisationComplete\<close> the
  "flag set when initialisation is complete".
\<close>

definition isInitialised :: "InteractiveClient \<Rightarrow> bool" where
  "isInitialised c = initialisationComplete c"

text \<open>
  Modelled from the spec: \<^verbatim>\<open>createQueryContext\<close> is defined in another file of the
  package. A cancel token is "created when a query-bearing execution context is created";
  the source's comments say the call sets \<^verbatim>\<open>c.cancelActiveQuery\<close>.
\<close>

definition createQueryContext :: "InteractiveClient \<Rightarrow> InteractiveClient" where
  "createQueryContext c =
     c\<lparr>cancelActiveQuery := Some (queryContexts c), queryContexts := Suc (queryContexts c)\<rparr>"

text \<open>
  Modelled from the spec: \<^verbatim>\<open>cancelActiveQueryIfAny\<close> is defined in another file of
  the package. "Invoke the current CancelToken's cancel function if one is valid; otherwise
  no-op"; a token is "invalidated exactly once", and "cancelling an absent/invalidated
  token is a no-op".
\<close>

definition cancelActiveQueryIfAny :: "InteractiveClient \<Rightarrow> InteractiveClient" where
  "cancelActiveQueryIfAny c =
     (case cancelActiveQuery c of
        None \<Rightarrow> c
      | Some n \<Rightarrow> effect (QueryCancelled n) (c\<lparr>cancelActiveQuery := None\<rparr>))"

text \<open>
  Modelled from the spec: \<^verbatim>\<open>waitForInitData\<close> is defined in another file of the
  package. The resolver is to "block conceptually until InitResult arrives"; the result
  is ready or failed, and a ready result flips the initialised flag. The outcome is the
  parameter \<open>initDataError\<close>.
\<close>

definition waitForInitData :: "Env \<Rightarrow> InteractiveClient \<Rightarrow> string option \<times> InteractiveClient" where
  "waitForInitData env c =
     (case initDataError env of
        Some err \<Rightarrow> (Some err, c)
      | None \<Rightarrow> (None, c\<lparr>initialisationComplete := True\<rparr>))"

text \<open>\<^verbatim>\<open>func (c *InteractiveClient) ClosePrompt(afterClose AfterPromptCloseAction)\<close>\<close>

definition ClosePrompt :: "AfterPromptCloseAction \<Rightarrow> InteractiveClient \<Rightarrow> InteractiveClient" where
  "ClosePrompt action c = effect PromptCancelled (c\<lparr>afterClose := action\<rparr>)"

text \<open>\<^verbatim>\<open>func (c *InteractiveClient) restartInteractiveSession()\<close>\<close>

definition restartInteractiveSession :: "InteractiveClient \<Rightarrow> InteractiveClient" where
  "restartInteractiveSession c = ClosePrompt (afterClose c) c"


text \<open>\<^verbatim>\<open>func (c *InteractiveClient) shouldExecute(line string, namedQuery bool) bool\<close>\<close>

definition shouldExecute :: "Env \<Rightarrow> string \<Rightarrow> bool \<Rightarrow> bool" where
  "shouldExecute env line namedQuery =
     (if namedQuery then True
      else if \<not> ArgMultiLine env then True
      else if IsMetaQuery env line then True
      else if HasSuffix line '';'' then True
      else False)"

text \<open>
  The body of \<^verbatim>\<open>getQuery\<close> after the test for an empty line. It returns the resolved
  query (\<open>None\<close> for nil), the value the variable \<^verbatim>\<open>historyEntry\<close> holds when the
  function returns, and the client.
\<close>

definition getQueryBody ::
  "Env \<Rightarrow> string \<Rightarrow> InteractiveClient \<Rightarrow> ResolvedQuery option \<times> string \<times> InteractiveClient" where
  "getQueryBody env line c =
     (let historyEntry = line;
          (err, c1) =
            (if \<not> isInitialised c
             then (let queryCtx = createQueryContext c;
                       (err, waited) = waitForInitData env (effect StatusShow queryCtx)
                   in (err, effect StatusDone waited))
             else (None, c))
      in if err \<noteq> None
         then (None, [], c1\<lparr>interactiveBuffer := []\<rparr>)
         else
           (let c2 = c1\<lparr>interactiveBuffer := interactiveBuffer c1 @ [line]\<rparr>;
                queryString = Join (interactiveBuffer c2) newline
            in case ResolveQueryAndArgsFromSQLString env queryString of
                 Inl resolveErr \<Rightarrow>
                   (None, historyEntry, effect (ShowError resolveErr) (c2\<lparr>interactiveBuffer := []\<rparr>))
               | Inr (resolvedQuery, queryProvider) \<Rightarrow>
                   (let isNamedQuery = (queryProvider \<noteq> None)
                    in if \<not> shouldExecute env queryString isNamedQuery
                       then (None, [], c2)
                       else
                         (let c3 = c2\<lparr>interactiveBuffer := []\<rparr>
                          in if TrimSpace (ExecuteSQL resolvedQuery) = '';''
                             then (None, [], restartInteractiveSession c3)
                             else if \<not> isNamedQuery \<and>
                                     length (Split (ExecuteSQL resolvedQuery) (CHR 0x0A)) > 1
                             then (Some resolvedQuery, ExecuteSQL resolvedQuery, c3)
                             else (Some resolvedQuery, historyEntry, c3)))))"

text \<open>
  \<^verbatim>\<open>func (c *InteractiveClient) getQuery(ctx context.Context, line string) *modconfig.ResolvedQuery\<close>.
  The two deferred functions run when the body returns, the later one first: the
  cancellation of the context created for the wait (deferred only when the client was not
  initialised on entry), then the push of the history entry.
\<close>

definition getQuery ::
  "Env \<Rightarrow> string \<Rightarrow> InteractiveClient \<Rightarrow> ResolvedQuery option \<times> InteractiveClient" where
  "getQuery env line c =
     (if line = [] then (None, c)
      else
        (let (resolvedQuery, historyEntry, c1) = getQueryBody env line c;
             c2 = (if \<not> isInitialised c then cancelActiveQueryIfAny c1 else c1);
             c3 = (if length historyEntry > 0 then effect (HistoryPush historyEntry) c2 else c2)
         in (resolvedQuery, c3)))"

datatype client_panic = ClientNotInitialised

text \<open>
  \<^verbatim>\<open>func (c *InteractiveClient) executeMetaquery(ctx context.Context, query string) error\<close>
\<close>

definition executeMetaquery ::
  "Env \<Rightarrow> string \<Rightarrow> InteractiveClient \<Rightarrow> client_panic + (string option \<times> InteractiveClient)" where
  "executeMetaquery env query c =
     (if \<not> isInitialised c then Inl ClientNotInitialised
      else
        (let validateResult = Validate env query;
             c1 = (if Message validateResult \<noteq> []
                   then effect (MetaqueryMessage (Message validateResult)) c else c)
         in case Err validateResult of
              Some err \<Rightarrow> Inr (Some err, c1)
            | None \<Rightarrow>
                if \<not> ShouldRun validateResult then Inr (None, c1)
                else (let (closePrompt, err) = Handle env query;
                          c2 = effect (MetaqueryHandled query) c1
                      in Inr (err, if closePrompt
                                   then c2\<lparr>afterClose := AfterPromptCloseExit\<rparr> else c2))))"

text \<open>
  \<^verbatim>\<open>func (c *InteractiveClient) executor(ctx context.Context, line string)\<close>. The
  deferred calls run last: \<^verbatim>\<open>statushooks.Done\<close> on the query path, then the release
  of the execution lock.
\<close>

definition executor :: "Env \<Rightarrow> string \<Rightarrow> InteractiveClient \<Rightarrow> client_panic + InteractiveClient" where
  "executor env rawLine c =
     (let c1 = (effect ExecutionLocked c)\<lparr>afterClose := AfterPromptCloseRestart\<rparr>;
          line = TrimSpace rawLine;
          (resolvedQuery, c2) = getQuery env line c1
      in case resolvedQuery of
           None \<Rightarrow> Inr (effect ExecutionUnlocked (restartInteractiveSession c2))
         | Some rq \<Rightarrow>
             (let queryCtx = createQueryContext c2
              in if IsMetaQuery env (ExecuteSQL rq)
                 then
                   (case executeMetaquery env (ExecuteSQL rq)
                           (effect PromptRender (queryCtx\<lparr>hidePrompt := True\<rparr>)) of
                      Inl p \<Rightarrow> Inl p
                    | Inr (err, c3) \<Rightarrow>
                        (let c4 = (case err of
                                     Some e \<Rightarrow> effect (ShowError e) c3
                                   | None \<Rightarrow> c3);
                             c5 = cancelActiveQueryIfAny (c4\<lparr>hidePrompt := False\<rparr>)
                         in Inr (effect ExecutionUnlocked (restartInteractiveSession c5))))
                 else
                   (let c3 = effect (QueryExecuted (ExecuteSQL rq) (Args rq))
                               (effect StatusShow queryCtx);
                        c4 = (case Execute env (ExecuteSQL rq) (Args rq) of
                                Inl err \<Rightarrow>
                                  (let shown = effect (ShowError err) c3
                                   in if ArgTiming env
                                      then effect ErrorTimingDisplayed shown else shown)
                              | Inr result \<Rightarrow> effect (ResultStreamed result) c3)
                    in Inr (effect ExecutionUnlocked
                              (effect StatusDone (restartInteractiveSession c4))))))"

section \<open>The cancel handler and the session controller\<close>

text \<open>
  What the goroutine of \<^verbatim>\<open>startCancelHandler\<close> receives in its \<^verbatim>\<open>select\<close>: an
  interrupt on \<^verbatim>\<open>sigIntChannel\<close>, or the controller's word on \<^verbatim>\<open>quitChannel\<close>.
\<close>

datatype signal = SigInt | Quit

text \<open>
  One round of the handler's loop. The first component says whether the goroutine goes on
  to wait for the next signal; \<open>False\<close> is its \<^verbatim>\<open>return\<close>.
\<close>

definition cancelHandlerStep :: "signal \<Rightarrow> InteractiveClient \<Rightarrow> bool \<times> InteractiveClient" where
  "cancelHandlerStep s c =
     (case s of
        SigInt \<Rightarrow>
          if \<not> isInitialised c then (False, ClosePrompt AfterPromptCloseExit c)
          else (True, cancelActiveQueryIfAny c)
      | Quit \<Rightarrow> (False, cancelActiveQueryIfAny c))"

text \<open>
  The handler's loop over the signals it receives, in order; a signal sent after the
  goroutine has returned is not handled.
\<close>

fun cancelHandler :: "signal list \<Rightarrow> InteractiveClient \<Rightarrow> bool \<times> InteractiveClient" where
  "cancelHandler [] c = (True, c)"
| "cancelHandler (s # rest) c =
     (case cancelHandlerStep s c of
        (True, c') \<Rightarrow> cancelHandler rest c'
      | (False, c') \<Rightarrow> (False, c'))"

text \<open>
  \<^verbatim>\<open>func (c *InteractiveClient) startCancelHandler() chan bool\<close>: the channels are made,
  the interrupt is routed to the handler and the goroutine is started.
\<close>

definition startCancelHandler :: "InteractiveClient \<Rightarrow> InteractiveClient" where
  "startCancelHandler c = effect CancelHandlerStarted c"

text \<open>
  Modelled from the spec: \<^verbatim>\<open>createPromptContext\<close> is defined in another file of the
  package. "A fresh execution context is created and the read loop is relaunched"; the
  source's comment says the call sets \<^verbatim>\<open>c.cancelPrompt\<close>.
\<close>

definition createPromptContext :: "InteractiveClient \<Rightarrow> InteractiveClient" where
  "createPromptContext c = effect PromptContextCreated c"

text \<open>\<^verbatim>\<open>func (c *InteractiveClient) runInteractivePromptAsync(...)\<close> starts the prompt's goroutine.\<close>

definition runInteractivePromptAsync :: "InteractiveClient \<Rightarrow> InteractiveClient" where
  "runInteractivePromptAsync c = effect PromptStarted c"

datatype InitResult = Ready | Failed string

text \<open>
  Modelled from the spec: \<^verbatim>\<open>handleInitResult\<close> is defined in another file of the
  package. "A Failed result is fatal: the Session Controller must transition directly to
  Closing after displaying the error; a Ready result installs schema metadata and
  connection map and flips an initialised flag"; the source's comment says that on an
  error \<^verbatim>\<open>handleInitResult\<close> shuts the prompt down.
\<close>

definition handleInitResult :: "InitResult \<Rightarrow> InteractiveClient \<Rightarrow> InteractiveClient" where
  "handleInitResult r c =
     (case r of
        Failed err \<Rightarrow> ClosePrompt AfterPromptCloseExit (effect (ShowError err) c)
      | Ready \<Rightarrow> c\<lparr>initialisationComplete := True\<rparr>)"

text \<open>
  The branch \<^verbatim>\<open>case <-promptResultChan\<close> of \<^verbatim>\<open>InteractivePrompt\<close>. The first component
  says whether the function returns.
\<close>

definition promptResultReceived :: "InteractiveClient \<Rightarrow> bool \<times> InteractiveClient" where
  "promptResultReceived c =
     (let c1 = effect HistoryPersist c
      in if afterClose c1 = AfterPromptCloseExit
         then (let c2 = effect PromptLineCleared (c1\<lparr>hidePrompt := True\<rparr>);
                   c3 = (case cancelNotificationListener c2 of
                           Some cancel \<Rightarrow> effect NotificationListenerCancelled c2
                         | None \<Rightarrow> c2)
               in (True, c3))
         else (False, runInteractivePromptAsync (createPromptContext c1)))"

text \<open>
  The function deferred by \<^verbatim>\<open>InteractivePrompt\<close>; \<open>r\<close> is what \<^verbatim>\<open>recover()\<close>
  returns, \<open>None\<close> for nil.
\<close>

definition deferredCleanup :: "string option \<Rightarrow> InteractiveClient \<Rightarrow> InteractiveClient" where
  "deferredCleanup r c =
     (let c1 = (case r of Some v \<Rightarrow> effect (ShowError v) c | None \<Rightarrow> c)
      in effect StreamerClosed (effect InitDataCleanup (effect QuitClosed (effect QuitSent c1))))"

text \<open>
  What the \<^verbatim>\<open>select\<close> of \<^verbatim>\<open>InteractivePrompt\<close> meets: an initialisation result, the
  result of the prompt's goroutine, or a panic raised by a call made in the loop. Each
  comes with what the other goroutines (the prompt, the cancel handler, the notification
  listener) have done to the client since the last one.
\<close>

datatype channelEvent = InitResultArrived InitResult | PromptResultArrived | LoopPanicked string

text \<open>
  The loop \<^verbatim>\<open>for { select { ... } }\<close>. It ends with the recovered value and the
  client when the function is left; \<open>None\<close> says that the events ran out with the loop
  still waiting.
\<close>

fun selectLoop ::
  "((InteractiveClient \<Rightarrow> InteractiveClient) \<times> channelEvent) list \<Rightarrow> InteractiveClient \<Rightarrow>
   (string option \<times> InteractiveClient) option" where
  "selectLoop [] c = None"
| "selectLoop ((others, InitResultArrived r) # rest) c =
     selectLoop rest (handleInitResult r (others c))"
| "selectLoop ((others, PromptResultArrived) # rest) c =
     (case promptResultReceived (others c) of
        (True, c') \<Rightarrow> Some (None, c')
      | (False, c') \<Rightarrow> selectLoop rest c')"
| "selectLoop ((others, LoopPanicked v) # rest) c = Some (Some v, others c)"

text \<open>\<^verbatim>\<open>func (c *InteractiveClient) InteractivePrompt(parentContext context.Context)\<close>\<close>

definition InteractivePrompt ::
  "((InteractiveClient \<Rightarrow> InteractiveClient) \<times> channelEvent) list \<Rightarrow> InteractiveClient \<Rightarrow>
   InteractiveClient option" where
  "InteractivePrompt events c =
     (let quitChannel = startCancelHandler c;
          ctx = createPromptContext quitChannel;
          c1 = runInteractivePromptAsync (effect StatusMessage ctx)
      in case selectLoop events c1 of
           None \<Rightarrow> None
         | Some (r, c') \<Rightarrow> Some (deferredCleanup r c'))"

text \<open>Whether \<open>a\<close> occurs in a list and \<open>b\<close> occurs after its first occurrence.\<close>

definition before :: "effect \<Rightarrow> effect \<Rightarrow> effect list \<Rightarrow> bool" where
  "before a b es = (b \<in> set (dropWhile (\<lambda>e. e \<noteq> a) es))"

text \<open>What the effects say of the history, and of what was run.\<close>

fun isHistoryPush :: "effect \<Rightarrow> bool" where
  "isHistoryPush (HistoryPush s) = True"
| "isHistoryPush e = False"

fun isExecution :: "effect \<Rightarrow> bool" where
  "isExecution (QueryExecuted q args) = True"
| "isExecution (MetaqueryHandled q) = True"
| "isExecution (MetaqueryMessage m) = True"
| "isExecution e = False"

definition history :: "InteractiveClient \<Rightarrow> effect list" where
  "history c = filter isHistoryPush (effects c)"

definition executions :: "InteractiveClient \<Rightarrow> effect list" where
  "executions c = filter isExecution (effects c)"

text \<open>
  The ways a line handed to \<^verbatim>\<open>getQuery\<close> can end, read off the resolver's steps in
  the specification: an empty line; a failed wait for the initialisation; a resolution
  error; a continuation (the line is buffered and nothing runs); a bare terminator; a
  resolved query handed back for execution, with whether it is a named one.
\<close>

datatype outcome =
    EmptyLine
  | InitFailed
  | ResolveFailed string
  | Continuation
  | BareTerminator
  | Submitted ResolvedQuery bool

definition lineOutcome :: "Env \<Rightarrow> string \<Rightarrow> InteractiveClient \<Rightarrow> outcome" where
  "lineOutcome env line c =
     (if line = [] then EmptyLine
      else if \<not> isInitialised c \<and> initDataError env \<noteq> None then InitFailed
      else
        (let joined = Join (interactiveBuffer c @ [line]) newline
         in case ResolveQueryAndArgsFromSQLString env joined of
              Inl err \<Rightarrow> ResolveFailed err
            | Inr (resolved, provider) \<Rightarrow>
                if \<not> shouldExecute env joined (provider \<noteq> None) then Continuation
                else if TrimSpace (ExecuteSQL resolved) = '';'' then BareTerminator
                else Submitted resolved (provider \<noteq> None)))"

text \<open>
  The history entry each of them is to leave: none for a continuation or a bare
  terminator, the line as entered after a resolution error, and for a query handed back
  the line as entered, or the whole resolved text when that has several lines and the
  query is not a named one.
\<close>

fun historyEntry :: "string \<Rightarrow> outcome \<Rightarrow> string list" where
  "historyEntry line (ResolveFailed err) = [line]"
| "historyEntry line (Submitted resolved named) =
     (if \<not> named \<and> length (Split (ExecuteSQL resolved) (CHR 0x0A)) > 1
      then [ExecuteSQL resolved] else [line])"
| "historyEntry line other = []"

text \<open>The client once \<^verbatim>\<open>executor\<close> has taken the lock and reset \<^verbatim>\<open>afterClose\<close>.\<close>

definition locked :: "InteractiveClient \<Rightarrow> InteractiveClient" where
  "locked c = (effect ExecutionLocked c)\<lparr>afterClose := AfterPromptCloseRestart\<rparr>"




text \<open>A client at an idle prompt, initialised, with nothing buffered.\<close>

definition idleClient :: InteractiveClient where
  "idleClient =
     \<lparr>interactiveBuffer = [], initialisationComplete = True,
      afterClose = AfterPromptCloseRestart, cancelActiveQuery = None,
      cancelNotificationListener = None, hidePrompt = False,
      autocompleteOnEmpty = False, queryContexts = 0, effects = []\<rparr>"

text \<open>
  Collaborators to run the client on concrete lines: a text starting with a dot is a
  metaquery; a text starting with \<open>query.\<close> does not resolve; \<open>q.sql\<close> is a file
  holding \<open>select 1;\<close> and \<open>empty.sql\<close> a file holding a lone terminator; any other
  text resolves to itself.
\<close>

definition sqlEnv :: "bool \<Rightarrow> Env" where
  "sqlEnv multi =
     \<lparr>ArgMultiLine = multi, ArgTiming = False,
      IsMetaQuery = (\<lambda>s. take 1 s = ''.''),
      ResolveQueryAndArgsFromSQLString =
        (\<lambda>s. if take 6 s = ''query.'' then Inl ''not found''
             else if s = ''q.sql'' then Inr (\<lparr>ExecuteSQL = ''select 1;'', Args = []\<rparr>, None)
             else if s = ''empty.sql'' then Inr (\<lparr>ExecuteSQL = '' ;'', Args = []\<rparr>, None)
             else Inr (\<lparr>ExecuteSQL = s, Args = []\<rparr>, None)),
      initDataError = None,
      Execute = (\<lambda>q args. Inr ''rows''),
      Validate = (\<lambda>q. \<lparr>Message = [], Err = None, ShouldRun = True\<rparr>),
      Handle = (\<lambda>q. (False, None))\<rparr>"

text \<open>
  The decision to execute as the specification words it, in step 6 of the Input Resolver:
  "true if isDirectiveOrNamed; else true if multi-line mode is disabled; else true if the
  joined text is a directive; else true only if the resolved executable text ends with
  the statement terminator".
\<close>

definition shouldExecuteSpec :: "bool \<Rightarrow> bool \<Rightarrow> bool \<Rightarrow> string \<Rightarrow> bool" where
  "shouldExecuteSpec isDirectiveOrNamed multiLine joinedIsDirective executableText =
     (if isDirectiveOrNamed then True
      else if \<not> multiLine then True
      else if joinedIsDirective then True
      else HasSuffix executableText '';'')"

text \<open>How often the prompt's context has been cancelled.\<close>

definition promptCancels :: "InteractiveClient \<Rightarrow> nat" where
  "promptCancels c = length (filter (\<lambda>e. e = PromptCancelled) (effects c))"

text \<open>A client whose initialisation has not completed.\<close>

definition startingClient :: InteractiveClient where
  "startingClient = idleClient\<lparr>initialisationComplete := False\<rparr>"

section \<open>The notification handler and the execution lock\<close>

text \<open>
  The two goroutines that meet at \<^verbatim>\<open>executionLock\<close>: the prompt's, which runs
  \<^verbatim>\<open>executor\<close>, and the notification listener's, which runs
  \<^verbatim>\<open>handleConnectionUpdateNotification\<close>.
\<close>

datatype thread = Dispatcher | Listener

text \<open>
  What either of them does to the lock and to the cached state, one statement of the
  source at a time.
\<close>

datatype action =
    LockExecution
  | UnlockExecution
  | LoadSchemaNames
  | LogError string
  | StoreConnectionMap nat
  | StoreGlobalConfig nat
  | StoreSchemaMetadata nat
  | InitialiseSuggestions
  | RefreshSessions
  | HandleMetaquery
  | ExecuteStatement

text \<open>
  The lock and the fields the handler writes: \<^verbatim>\<open>c.initData.ConnectionMap\<close>,
  \<^verbatim>\<open>steampipeconfig.GlobalConfig\<close>, \<^verbatim>\<open>c.schemaMetadata\<close> and the suggestions. A
  cached value is the number of the reload it comes from. \<open>handlerInputs\<close> records what
  \<^verbatim>\<open>executeMetaquery\<close> hands to \<^verbatim>\<open>metaquery.Handle\<close>: the schema metadata and the
  connection map it reads from the client.
\<close>

record caches =
  executionLock :: "thread option"
  ConnectionMap :: nat
  GlobalConfig :: nat
  schemaMetadata :: nat
  suggestions :: nat
  handlerInputs :: "(nat \<times> nat) list"

text \<open>
  What the reload steps of one notification return: the error of
  \<^verbatim>\<open>LoadSchemaNames\<close>, and an error or the new value for \<^verbatim>\<open>GetConnectionState\<close>,
  \<^verbatim>\<open>LoadSteampipeConfig\<close> and \<^verbatim>\<open>GetSchemaFromDB\<close>.
\<close>

record Reload =
  schemaNamesError :: "string option"
  connectionState :: "string + nat"
  steampipeConfig :: "string + nat"
  schemaFromDB :: "string + nat"

text \<open>
  \<^verbatim>\<open>func (c *InteractiveClient) handleConnectionUpdateNotification(...)\<close>, as the
  sequence of its actions; \<^verbatim>\<open>loadSchema\<close> is inlined. A failed step other than the
  first logs its error and returns.
\<close>

definition handleConnectionUpdateNotification :: "Reload \<Rightarrow> action list" where
  "handleConnectionUpdateNotification r =
     LoadSchemaNames #
     (case schemaNamesError r of Some err \<Rightarrow> [LogError err] | None \<Rightarrow> []) @
     (case connectionState r of
        Inl err \<Rightarrow> [LogError err]
      | Inr connectionMap \<Rightarrow>
          StoreConnectionMap connectionMap #
          (case steampipeConfig r of
             Inl err \<Rightarrow> [LogError err]
           | Inr config \<Rightarrow>
               StoreGlobalConfig config #
               (case schemaFromDB r of
                  Inl err \<Rightarrow> [LogError err]
                | Inr metadata \<Rightarrow>
                    [StoreSchemaMetadata metadata, InitialiseSuggestions,
                     LockExecution, RefreshSessions, UnlockExecution])))"

text \<open>
  What \<^verbatim>\<open>executor\<close> does under the lock: nothing when \<^verbatim>\<open>getQuery\<close> returns nil,
  \<^verbatim>\<open>executeMetaquery\<close> for a metaquery, the database client's \<^verbatim>\<open>Execute\<close> for a
  statement.
\<close>

datatype execution = NothingToRun | Metaquery | Statement

definition executorActions :: "execution \<Rightarrow> action list" where
  "executorActions x =
     LockExecution #
     (case x of
        NothingToRun \<Rightarrow> []
      | Metaquery \<Rightarrow> [HandleMetaquery]
      | Statement \<Rightarrow> [ExecuteStatement]) @
     [UnlockExecution]"

text \<open>
  One action of thread \<open>t\<close>; \<open>None\<close> when the thread cannot take the step, which is
  when it asks for a lock that is held. Modelled from the spec:
  \<^verbatim>\<open>initialiseSuggestions\<close> is defined in another file of the package; the suggestion
  index is "rebuilt wholesale after every schema/config reload", here from the schema
  metadata the client holds.
\<close>

definition perform :: "thread \<Rightarrow> action \<Rightarrow> caches \<Rightarrow> caches option" where
  "perform t a s =
     (case a of
        LockExecution \<Rightarrow>
          if executionLock s = None then Some (s\<lparr>executionLock := Some t\<rparr>) else None
      | UnlockExecution \<Rightarrow> Some (s\<lparr>executionLock := None\<rparr>)
      | StoreConnectionMap v \<Rightarrow> Some (s\<lparr>ConnectionMap := v\<rparr>)
      | StoreGlobalConfig v \<Rightarrow> Some (s\<lparr>GlobalConfig := v\<rparr>)
      | StoreSchemaMetadata v \<Rightarrow> Some (s\<lparr>schemaMetadata := v\<rparr>)
      | InitialiseSuggestions \<Rightarrow> Some (s\<lparr>suggestions := schemaMetadata s\<rparr>)
      | HandleMetaquery \<Rightarrow>
          Some (s\<lparr>handlerInputs := handlerInputs s @ [(schemaMetadata s, ConnectionMap s)]\<rparr>)
      | _ \<Rightarrow> Some s)"

text \<open>
  A run of the two threads under a schedule that names, step by step, the thread that
  moves. The configuration holds what each thread has still to do. \<open>None\<close> when the
  schedule cannot be followed: the thread named has finished or is blocked.
\<close>

fun interleave ::
  "thread list \<Rightarrow> action list \<times> action list \<times> caches \<Rightarrow>
   (action list \<times> action list \<times> caches) option" where
  "interleave [] cfg = Some cfg"
| "interleave (Dispatcher # schedule) (d, l, s) =
     (case d of
        [] \<Rightarrow> None
      | a # d' \<Rightarrow>
          (case perform Dispatcher a s of
             None \<Rightarrow> None
           | Some s' \<Rightarrow> interleave schedule (d', l, s')))"
| "interleave (Listener # schedule) (d, l, s) =
     (case l of
        [] \<Rightarrow> None
      | a # l' \<Rightarrow>
          (case perform Listener a s of
             None \<Rightarrow> None
           | Some s' \<Rightarrow> interleave schedule (d, l', s')))"

text \<open>A thread is in its critical section when it owes an unlock before any further lock.\<close>

definition inCritical :: "action list \<Rightarrow> bool" where
  "inCritical todo = (UnlockExecution \<in> set (takeWhile (\<lambda>a. a \<noteq> LockExecution) todo))"

text \<open>
  The actions still to do lock and unlock in turn, starting from a thread that holds the
  lock (\<open>h\<close>) or does not, and end with the lock released.
\<close>

fun balanced :: "bool \<Rightarrow> action list \<Rightarrow> bool" where
  "balanced h [] = (\<not> h)"
| "balanced h (LockExecution # todo) = (\<not> h \<and> balanced True todo)"
| "balanced h (UnlockExecution # todo) = (h \<and> balanced False todo)"
| "balanced h (a # todo) = balanced h todo"

text \<open>Caches before a reload, and a reload whose steps all succeed.\<close>

definition staleCaches :: caches where
  "staleCaches = \<lparr>executionLock = None, ConnectionMap = 0, GlobalConfig = 0,
     schemaMetadata = 0, suggestions = 0, handlerInputs = []\<rparr>"

definition freshReload :: Reload where
  "freshReload = \<lparr>schemaNamesError = None, connectionState = Inr 1, steampipeConfig = Inr 1,
     schemaFromDB = Inr 1\<rparr>"

section \<open>Aggregator resolution: proofs\<close>

lemma wildcardLoop_result:
  assumes "\<forall>(n, p) \<in> set entries. h p \<noteq> None"
    and "distinct (map fst entries)"
  shows "\<exists>conns'. wildcardLoop h pathMatch cPlugin childName entries conns = Inr conns' \<and>
     (\<forall>name. map_of conns' name =
        (case map_of conns name of
           Some q \<Rightarrow> Some q
         | None \<Rightarrow> (case map_of entries name of
                      Some p \<Rightarrow> if wildcardAdmits h pathMatch cPlugin childName name p then Some p else None
                    | None \<Rightarrow> None)))"
  using assms
proof (induction entries arbitrary: conns)
  case Nil
  then show ?case by (simp split: option.splits)
next
  case (Cons e entries)
  obtain name p where e: "e = (name, p)" by (cases e)
  from Cons.prems e obtain connection where hp: "h p = Some connection" by auto
  have notin: "map_of entries name = None"
    using Cons.prems(2) e by (simp add: map_of_eq_None_iff)
  have rest: "\<forall>(n, p) \<in> set entries. h p \<noteq> None" "distinct (map fst entries)"
    using Cons.prems by auto
  note IH = Cons.IH[OF rest]
  show ?case
  proof (cases "Type connection \<noteq> ConnectionTypeAggregator \<and> map_of conns name = None
                \<and> pathMatch childName name \<and> Plugin connection = cPlugin")
    case True
    from IH[of "AList.update name p conns"] obtain conns' where
      r: "wildcardLoop h pathMatch cPlugin childName entries (AList.update name p conns) = Inr conns'"
      and m: "\<forall>n. map_of conns' n =
        (case map_of (AList.update name p conns) n of
           Some q \<Rightarrow> Some q
         | None \<Rightarrow> (case map_of entries n of
                      Some p \<Rightarrow> if wildcardAdmits h pathMatch cPlugin childName n p then Some p else None
                    | None \<Rightarrow> None))" by blast
    have "wildcardLoop h pathMatch cPlugin childName (e # entries) conns = Inr conns'"
      using True r e hp by simp
    moreover have "\<forall>n. map_of conns' n =
        (case map_of conns n of
           Some q \<Rightarrow> Some q
         | None \<Rightarrow> (case map_of (e # entries) n of
                      Some p \<Rightarrow> if wildcardAdmits h pathMatch cPlugin childName n p then Some p else None
                    | None \<Rightarrow> None))"
      using m True e hp notin
      by (auto simp: update_conv' wildcardAdmits_def split: option.splits)
    ultimately show ?thesis by blast
  next
    case False
    from IH[of conns] obtain conns' where
      r: "wildcardLoop h pathMatch cPlugin childName entries conns = Inr conns'"
      and m: "\<forall>n. map_of conns' n =
        (case map_of conns n of
           Some q \<Rightarrow> Some q
         | None \<Rightarrow> (case map_of entries n of
                      Some p \<Rightarrow> if wildcardAdmits h pathMatch cPlugin childName n p then Some p else None
                    | None \<Rightarrow> None))" by blast
    have "wildcardLoop h pathMatch cPlugin childName (e # entries) conns = Inr conns'"
      using False r e hp by auto
    moreover have "\<forall>n. map_of conns' n =
        (case map_of conns n of
           Some q \<Rightarrow> Some q
         | None \<Rightarrow> (case map_of (e # entries) n of
                      Some p \<Rightarrow> if wildcardAdmits h pathMatch cPlugin childName n p then Some p else None
                    | None \<Rightarrow> None))"
      using m False e hp notin
      by (auto simp: wildcardAdmits_def split: option.splits)
    ultimately show ?thesis by blast
  qed
qed


lemma childLoop_result:
  assumes alloc: "\<forall>(n, p) \<in> set connectionMap. h p \<noteq> None"
    and dist: "distinct (map fst connectionMap)"
    and sub: "\<forall>n q. map_of conns n = Some q \<longrightarrow> map_of connectionMap n = Some q"
  shows "\<exists>res. childLoop h pathMatch cPlugin connectionMap names conns = Inr res \<and>
     (\<forall>name p. map_of res name = Some p \<longleftrightarrow>
        map_of connectionMap name = Some p \<and>
        (map_of conns name \<noteq> None \<or> name \<in> set names \<or>
         (\<exists>pat \<in> set names. map_of connectionMap pat = None \<and>
            wildcardAdmits h pathMatch cPlugin pat name p)))"
  using sub
proof (induction names arbitrary: conns)
  case Nil
  then show ?case by auto
next
  case (Cons childName names)
  show ?case
  proof (cases "map_of connectionMap childName")
    case (Some childConnection)
    let ?c = "AList.update childName childConnection conns"
    have sub': "\<forall>n q. map_of ?c n = Some q \<longrightarrow> map_of connectionMap n = Some q"
      using Cons.prems Some by (auto simp: update_conv')
    from Cons.IH[OF sub'] obtain res where
      r: "childLoop h pathMatch cPlugin connectionMap names ?c = Inr res"
      and m: "\<forall>name p. map_of res name = Some p \<longleftrightarrow>
        map_of connectionMap name = Some p \<and>
        (map_of ?c name \<noteq> None \<or> name \<in> set names \<or>
         (\<exists>pat \<in> set names. map_of connectionMap pat = None \<and>
            wildcardAdmits h pathMatch cPlugin pat name p))" by blast
    have "childLoop h pathMatch cPlugin connectionMap (childName # names) conns = Inr res"
      using Some r by simp
    moreover have "\<forall>name p. map_of res name = Some p \<longleftrightarrow>
        map_of connectionMap name = Some p \<and>
        (map_of conns name \<noteq> None \<or> name \<in> set (childName # names) \<or>
         (\<exists>pat \<in> set (childName # names). map_of connectionMap pat = None \<and>
            wildcardAdmits h pathMatch cPlugin pat name p))"
      using m Some by (auto simp: update_conv')
    ultimately show ?thesis by blast
  next
    case None
    from wildcardLoop_result[OF alloc dist, of pathMatch cPlugin childName conns]
    obtain conns' where
      w: "wildcardLoop h pathMatch cPlugin childName connectionMap conns = Inr conns'"
      and wm: "\<forall>name. map_of conns' name =
        (case map_of conns name of
           Some q \<Rightarrow> Some q
         | None \<Rightarrow> (case map_of connectionMap name of
                      Some p \<Rightarrow> if wildcardAdmits h pathMatch cPlugin childName name p then Some p else None
                    | None \<Rightarrow> None))" by blast
    have sub': "\<forall>n q. map_of conns' n = Some q \<longrightarrow> map_of connectionMap n = Some q"
      using Cons.prems wm by (auto split: option.splits if_splits)
    from Cons.IH[OF sub'] obtain res where
      r: "childLoop h pathMatch cPlugin connectionMap names conns' = Inr res"
      and m: "\<forall>name p. map_of res name = Some p \<longleftrightarrow>
        map_of connectionMap name = Some p \<and>
        (map_of conns' name \<noteq> None \<or> name \<in> set names \<or>
         (\<exists>pat \<in> set names. map_of connectionMap pat = None \<and>
            wildcardAdmits h pathMatch cPlugin pat name p))" by blast
    have "childLoop h pathMatch cPlugin connectionMap (childName # names) conns = Inr res"
      using None w r by simp
    moreover have "\<forall>name p. map_of res name = Some p \<longleftrightarrow>
        map_of connectionMap name = Some p \<and>
        (map_of conns name \<noteq> None \<or> name \<in> set (childName # names) \<or>
         (\<exists>pat \<in> set (childName # names). map_of connectionMap pat = None \<and>
            wildcardAdmits h pathMatch cPlugin pat name p))"
    proof (intro allI)
      fix name p
      have c': "map_of conns' name \<noteq> None \<longleftrightarrow>
           map_of conns name \<noteq> None \<or>
           (\<exists>q. map_of connectionMap name = Some q \<and> wildcardAdmits h pathMatch cPlugin childName name q)"
        using wm by (auto split: option.splits if_splits)
      show "map_of res name = Some p \<longleftrightarrow>
        map_of connectionMap name = Some p \<and>
        (map_of conns name \<noteq> None \<or> name \<in> set (childName # names) \<or>
         (\<exists>pat \<in> set (childName # names). map_of connectionMap pat = None \<and>
            wildcardAdmits h pathMatch cPlugin pat name p))"
        using m c' None by auto
    qed
    ultimately show ?thesis by blast
  qed
qed


lemma PopulateChildren_children:
  assumes alloc: "\<forall>(n, p) \<in> set connectionMap. h p \<noteq> None"
    and dist: "distinct (map fst connectionMap)"
    and self: "h self = Some c"
  shows "\<exists>conns. PopulateChildren pathMatch h self connectionMap =
            Inr (h(self \<mapsto> c\<lparr>Connections := conns, ResolvedConnectionNames := map fst conns\<rparr>)) \<and>
     (\<forall>name p. map_of conns name = Some p \<longleftrightarrow>
        map_of connectionMap name = Some p \<and>
        (name \<in> set (ConnectionNames c) \<or>
         (\<exists>pat \<in> set (ConnectionNames c). map_of connectionMap pat = None \<and>
            wildcardAdmits h pathMatch (Plugin c) pat name p)))"
proof -
  have sub: "\<forall>n q. map_of ([] :: (string \<times> ptr) list) n = Some q \<longrightarrow> map_of connectionMap n = Some q"
    by simp
  from childLoop_result[OF alloc dist sub, of pathMatch "Plugin c" "ConnectionNames c"]
  obtain res where
    r: "childLoop h pathMatch (Plugin c) connectionMap (ConnectionNames c) [] = Inr res"
    and m: "\<forall>name p. map_of res name = Some p \<longleftrightarrow>
        map_of connectionMap name = Some p \<and>
        (map_of ([] :: (string \<times> ptr) list) name \<noteq> None \<or> name \<in> set (ConnectionNames c) \<or>
         (\<exists>pat \<in> set (ConnectionNames c). map_of connectionMap pat = None \<and>
            wildcardAdmits h pathMatch (Plugin c) pat name p))" by blast
  have "PopulateChildren pathMatch h self connectionMap =
            Inr (h(self \<mapsto> c\<lparr>Connections := res, ResolvedConnectionNames := map fst res\<rparr>))"
    using self r by (simp add: PopulateChildren_def)
  moreover have "\<forall>name p. map_of res name = Some p \<longleftrightarrow>
        map_of connectionMap name = Some p \<and>
        (name \<in> set (ConnectionNames c) \<or>
         (\<exists>pat \<in> set (ConnectionNames c). map_of connectionMap pat = None \<and>
            wildcardAdmits h pathMatch (Plugin c) pat name p))"
    using m by simp
  ultimately show ?thesis by blast
qed






text \<open>
  The mismatch is left to the validation that follows: on the children resolved above,
  \<^verbatim>\<open>ValidateAggregatorConnection\<close> reports the plugin of \<open>c\<close>.
\<close>

lemma ValidateAggregatorConnection_mixed:
  "(case PopulateChildren starMatch mixedStore 0 mixedMap of
      Inl e \<Rightarrow> Inl e
    | Inr h \<Rightarrow> ValidateAggregatorConnection h 0) =
   Inr ([], [PluginMismatch ''A'' ''P'' ''c'' ''Q''])"
  by (simp add: PopulateChildren_def ValidateAggregatorConnection_def mixedStore_def
      mixedMap_def newConnection_def ConnectionTypeAggregator_def)


text \<open>
  C9. A name of \<^verbatim>\<open>ConnectionNames\<close> that is a key of the connection map is added to the
  children with the pointer the map holds, and to the resolved names; nothing is asked of
  the plugin or the type of the connection behind it. The two filters act on the wildcard
  path alone: every child whose name is not listed literally is a non-aggregator with the
  aggregator's plugin.
\<close>

theorem PopulateChildren_literal:
  assumes alloc: "\<forall>(n, p) \<in> set connectionMap. h p \<noteq> None"
    and dist: "distinct (map fst connectionMap)"
    and self: "h self = Some c"
    and listed: "childName \<in> set (ConnectionNames c)"
    and key: "map_of connectionMap childName = Some p"
  shows "\<exists>h' c'. PopulateChildren pathMatch h self connectionMap = Inr h' \<and>
     h' self = Some c' \<and>
     map_of (Connections c') childName = Some p \<and>
     childName \<in> set (ResolvedConnectionNames c') \<and>
     (\<forall>name q. map_of (Connections c') name = Some q \<and> name \<notin> set (ConnectionNames c) \<longrightarrow>
        (\<exists>conn. h q = Some conn \<and> Type conn \<noteq> ConnectionTypeAggregator \<and>
           Plugin conn = Plugin c))"
proof -
  from PopulateChildren_children[OF alloc dist self, of pathMatch] obtain conns where
    r: "PopulateChildren pathMatch h self connectionMap =
          Inr (h(self \<mapsto> c\<lparr>Connections := conns, ResolvedConnectionNames := map fst conns\<rparr>))"
    and m: "\<forall>name p. map_of conns name = Some p \<longleftrightarrow>
        map_of connectionMap name = Some p \<and>
        (name \<in> set (ConnectionNames c) \<or>
         (\<exists>pat \<in> set (ConnectionNames c). map_of connectionMap pat = None \<and>
            wildcardAdmits h pathMatch (Plugin c) pat name p))" by blast
  let ?c' = "c\<lparr>Connections := conns, ResolvedConnectionNames := map fst conns\<rparr>"
  have 1: "(h(self \<mapsto> ?c')) self = Some ?c'" by simp
  have 2: "map_of (Connections ?c') childName = Some p"
    using m listed key by simp
  have 3: "childName \<in> set (ResolvedConnectionNames ?c')"
    using 2 by (simp add: map_of_SomeD image_iff) (metis fst_conv map_of_SomeD)
  have 4: "\<forall>name q. map_of (Connections ?c') name = Some q \<and> name \<notin> set (ConnectionNames c) \<longrightarrow>
        (\<exists>conn. h q = Some conn \<and> Type conn \<noteq> ConnectionTypeAggregator \<and>
           Plugin conn = Plugin c)"
    using m by (auto simp: wildcardAdmits_def split: option.splits)
  show ?thesis using r 1 2 3 4 by blast
qed

text \<open>
  The theorem at the aggregator \<open>A\<close> of plugin \<open>P\<close> whose children name \<open>A\<close> itself and
  \<open>c\<close> of plugin \<open>Q\<close>: both are added.
\<close>

theorem PopulateChildren_literal_witness:
  "list_all (\<lambda>(n, p). mixedStore p \<noteq> None) mixedMap \<and>
   distinct (map fst mixedMap) \<and>
   mixedStore 0 = Some (newConnection ''A'' ''P'' ''aggregator'' [''A'', ''c'']) \<and>
   ''c'' \<in> set (ConnectionNames (newConnection ''A'' ''P'' ''aggregator'' [''A'', ''c''])) \<and>
   map_of mixedMap ''c'' = Some 1 \<and>
   map_option Plugin (mixedStore 1) = Some ''Q'' \<and>
   (\<exists>h' c'. PopulateChildren starMatch mixedStore 0 mixedMap = Inr h' \<and>
      h' 0 = Some c' \<and>
      map_of (Connections c') ''c'' = Some 1 \<and>
      ''c'' \<in> set (ResolvedConnectionNames c'))"
proof -
  let ?A = "newConnection ''A'' ''P'' ''aggregator'' [''A'', ''c'']"
  have h1: "\<forall>(n, p) \<in> set mixedMap. mixedStore p \<noteq> None"
    by (simp add: mixedMap_def mixedStore_def)
  have h2: "distinct (map fst mixedMap)"
    by (simp add: mixedMap_def)
  have h3: "mixedStore 0 = Some ?A"
    by (simp add: mixedStore_def)
  have h4: "''c'' \<in> set (ConnectionNames ?A)"
    by (simp add: newConnection_def)
  have h5: "map_of mixedMap ''c'' = Some 1"
    by (simp add: mixedMap_def)
  have q: "map_option Plugin (mixedStore 1) = Some ''Q''"
    by (simp add: mixedStore_def newConnection_def)
  have concl: "\<exists>h' c'. PopulateChildren starMatch mixedStore 0 mixedMap = Inr h' \<and>
      h' 0 = Some c' \<and>
      map_of (Connections c') ''c'' = Some 1 \<and>
      ''c'' \<in> set (ResolvedConnectionNames c')"
    using PopulateChildren_literal[OF h1 h2 h3 h4 h5, of starMatch]
    apply (elim exE conjE)
    subgoal for h' c'
      by (intro exI[of _ h'] exI[of _ c'] conjI; assumption)
    done
  have h1': "list_all (\<lambda>(n, p). mixedStore p \<noteq> None) mixedMap"
    by (simp add: mixedMap_def mixedStore_def)
  show ?thesis by (intro conjI h1' h2 h3 h4 h5 q concl)
qed


section \<open>The input resolver and the executor: proofs\<close>

lemmas client_defs = getQuery_def getQueryBody_def lineOutcome_def isInitialised_def
  createQueryContext_def cancelActiveQueryIfAny_def waitForInitData_def effect_def
  restartInteractiveSession_def ClosePrompt_def history_def executions_def

lemma getQuery_result:
  "fst (getQuery env line c) =
     (case lineOutcome env line c of Submitted resolved named \<Rightarrow> Some resolved | _ \<Rightarrow> None)"
  by (auto simp: client_defs Let_def split: option.splits sum.splits prod.splits if_splits)

lemma getQuery_buffer:
  "interactiveBuffer (snd (getQuery env line c)) =
     (case lineOutcome env line c of
        EmptyLine \<Rightarrow> interactiveBuffer c
      | Continuation \<Rightarrow> interactiveBuffer c @ [line]
      | _ \<Rightarrow> [])"
  by (auto simp: client_defs Let_def split: option.splits sum.splits prod.splits if_splits)

lemma getQuery_history:
  "history (snd (getQuery env line c)) =
     history c @ map HistoryPush (historyEntry line (lineOutcome env line c))"
  by (auto simp: client_defs Let_def split: option.splits sum.splits prod.splits if_splits)

lemma getQuery_executions:
  "executions (snd (getQuery env line c)) = executions c"
  by (auto simp: client_defs Let_def split: option.splits sum.splits prod.splits if_splits)

lemma getQuery_afterClose:
  "afterClose (snd (getQuery env line c)) = afterClose c"
  by (auto simp: client_defs Let_def split: option.splits sum.splits prod.splits if_splits)



lemma lineOutcome_locked: "lineOutcome env line (locked c) = lineOutcome env line c"
  by (simp add: lineOutcome_def locked_def effect_def isInitialised_def)

lemma locked_simps:
  "history (locked c) = history c"
  "executions (locked c) = executions c"
  "interactiveBuffer (locked c) = interactiveBuffer c"
  "afterClose (locked c) = AfterPromptCloseRestart"
  by (simp_all add: locked_def effect_def history_def executions_def)

lemma executor_nil:
  assumes "fst (getQuery env (TrimSpace rawLine) (locked c)) = None"
  shows "executor env rawLine c =
     Inr (effect ExecutionUnlocked
            (restartInteractiveSession (snd (getQuery env (TrimSpace rawLine) (locked c)))))"
proof -
  obtain r c2 where g: "getQuery env (TrimSpace rawLine) (locked c) = (r, c2)"
    by (cases "getQuery env (TrimSpace rawLine) (locked c)")
  with assms have r: "r = None" by simp
  show ?thesis
    using g[unfolded locked_def] r by (simp add: executor_def Let_def locked_def)
qed




lemma trimLeading_rune:
  assumes "r \<in> set spaceRunes"
  shows "trimLeading spaceRunes (r @ rest) = trimLeading spaceRunes rest"
  using assms by (auto simp: spaceRunes_def runeWidth_def)

lemma trimLeading_runes:
  assumes "set rs \<subseteq> set spaceRunes"
  shows "trimLeading spaceRunes (concat rs @ rest) = trimLeading spaceRunes rest"
  using assms by (induction rs) (simp_all add: trimLeading_rune)

lemma TrimSpace_runes:
  assumes "set rs \<subseteq> set spaceRunes"
  shows "TrimSpace (concat rs) = []"
  using trimLeading_runes[OF assms, of "[]"] by (simp add: TrimSpace_def)

lemma TrimSpace_Nil: "TrimSpace [] = []"
  by (simp add: TrimSpace_def)

lemma executor_empty:
  "executor env [] c =
     Inr (c\<lparr>afterClose := AfterPromptCloseRestart,
            effects := effects c @ [ExecutionLocked, PromptCancelled, ExecutionUnlocked]\<rparr>)"
  by (simp add: executor_def TrimSpace_Nil getQuery_def Let_def effect_def
      restartInteractiveSession_def ClosePrompt_def)

lemma getQuery_effects:
  "\<exists>es. effects (snd (getQuery env line c)) = effects c @ es"
  by (auto simp: client_defs Let_def split: option.splits sum.splits prod.splits if_splits)

lemma getQuery_shows_error:
  assumes "line \<noteq> []"
    and "isInitialised c \<or> initDataError env = None"
    and "ResolveQueryAndArgsFromSQLString env (Join (interactiveBuffer c @ [line]) newline) = Inl err"
  shows "\<exists>es. effects (snd (getQuery env line c)) = effects c @ es \<and> ShowError err \<in> set es"
  using assms
  by (auto simp: client_defs Let_def split: option.splits sum.splits prod.splits if_splits)

lemma executor_not_submitted:
  assumes "\<And>rq named. lineOutcome env (TrimSpace rawLine) c \<noteq> Submitted rq named"
  shows "\<exists>c' es. executor env rawLine c = Inr c' \<and>
     effects (snd (getQuery env (TrimSpace rawLine) (locked c))) = effects c @ es \<and>
     effects c' = effects c @ es @ [PromptCancelled, ExecutionUnlocked] \<and>
     afterClose c' = AfterPromptCloseRestart \<and>
     executions c' = executions c \<and>
     history c' =
       history c @ map HistoryPush (historyEntry (TrimSpace rawLine)
                                      (lineOutcome env (TrimSpace rawLine) c)) \<and>
     interactiveBuffer c' =
       (case lineOutcome env (TrimSpace rawLine) c of
          EmptyLine \<Rightarrow> interactiveBuffer c
        | Continuation \<Rightarrow> interactiveBuffer c @ [TrimSpace rawLine]
        | _ \<Rightarrow> [])"
proof -
  let ?line = "TrimSpace rawLine"
  let ?g = "getQuery env ?line (locked c)"
  have none: "fst ?g = None"
    using assms by (simp add: getQuery_result lineOutcome_locked split: outcome.splits)
  note ex = executor_nil[OF none]
  let ?c' = "effect ExecutionUnlocked (restartInteractiveSession (snd ?g))"
  obtain es0 where es0: "effects (snd ?g) = effects (locked c) @ es0"
    using getQuery_effects by blast
  have e1: "effects (snd ?g) = effects c @ (ExecutionLocked # es0)"
    using es0 by (simp add: locked_def effect_def)
  have e2: "effects ?c' = effects c @ (ExecutionLocked # es0) @ [PromptCancelled, ExecutionUnlocked]"
    using e1 by (simp add: effect_def restartInteractiveSession_def ClosePrompt_def)
  have a: "afterClose ?c' = AfterPromptCloseRestart"
    using getQuery_afterClose[of env ?line "locked c"]
    by (simp add: effect_def restartInteractiveSession_def ClosePrompt_def locked_simps)
  have x: "executions ?c' = executions c"
    using getQuery_executions[of env ?line "locked c"] locked_simps(2)[of c]
    by (simp add: effect_def restartInteractiveSession_def ClosePrompt_def executions_def)
  have h: "history ?c' = history c @ map HistoryPush (historyEntry ?line (lineOutcome env ?line c))"
    using getQuery_history[of env ?line "locked c"] locked_simps(1)[of c]
    by (simp add: effect_def restartInteractiveSession_def ClosePrompt_def
        history_def lineOutcome_locked)
  have b: "interactiveBuffer ?c' =
       (case lineOutcome env ?line c of
          EmptyLine \<Rightarrow> interactiveBuffer c
        | Continuation \<Rightarrow> interactiveBuffer c @ [?line]
        | _ \<Rightarrow> [])"
    using getQuery_buffer[of env ?line "locked c"]
    by (simp add: effect_def restartInteractiveSession_def ClosePrompt_def locked_simps
        lineOutcome_locked split: outcome.splits)
  show ?thesis
    by (intro exI[of _ ?c'] exI[of _ "ExecutionLocked # es0"] conjI ex e1 e2 a x h b)
qed



lemmas eval_defs = executor_def getQuery_def getQueryBody_def isInitialised_def
  createQueryContext_def cancelActiveQueryIfAny_def waitForInitData_def effect_def
  restartInteractiveSession_def ClosePrompt_def shouldExecute_def HasSuffix_def
  executeMetaquery_def TrimSpace_def runeWidth_def spaceRunes_def newline_def
  sqlEnv_def idleClient_def locked_def history_def executions_def Let_def


text \<open>
  C10. A line made of white-space runes only is trimmed to the empty line before
  \<^verbatim>\<open>getQuery\<close> sees it, so \<^verbatim>\<open>executor\<close> does with it what it does with the empty
  line: it takes the lock, restarts the prompt and releases the lock. The buffer is left
  as it was, nothing is pushed to the history and nothing is run.
\<close>

theorem executor_blank_line:
  assumes "set rs \<subseteq> set spaceRunes"
  shows "executor env (concat rs) c = executor env [] c \<and>
     executor env [] c =
       Inr (c\<lparr>afterClose := AfterPromptCloseRestart,
              effects := effects c @ [ExecutionLocked, PromptCancelled, ExecutionUnlocked]\<rparr>)"
proof
  show "executor env (concat rs) c = executor env [] c"
    unfolding executor_def TrimSpace_runes[OF assms] TrimSpace_Nil ..
  show "executor env [] c =
       Inr (c\<lparr>afterClose := AfterPromptCloseRestart,
              effects := effects c @ [ExecutionLocked, PromptCancelled, ExecutionUnlocked]\<rparr>)"
    by (rule executor_empty)
qed


text \<open>The theorem at a line made of a space, a no-break space and a tab.\<close>

theorem executor_blank_line_witness:
  "set [[CHR 0x20], [CHR 0xC2, CHR 0xA0], [CHR 0x09]] \<subseteq> set spaceRunes \<and>
   executor (sqlEnv True) (concat [[CHR 0x20], [CHR 0xC2, CHR 0xA0], [CHR 0x09]]) idleClient =
     executor (sqlEnv True) [] idleClient \<and>
   executor (sqlEnv True) [] idleClient =
     Inr (idleClient\<lparr>afterClose := AfterPromptCloseRestart,
            effects := effects idleClient @ [ExecutionLocked, PromptCancelled, ExecutionUnlocked]\<rparr>)"
proof -
  have h: "set [[CHR 0x20], [CHR 0xC2, CHR 0xA0], [CHR 0x09]] \<subseteq> set spaceRunes"
    by (simp add: spaceRunes_def)
  from executor_blank_line[OF h, of "sqlEnv True" idleClient] h show ?thesis by simp
qed




text \<open>
  C6. When the joined buffer does not resolve, \<^verbatim>\<open>getQuery\<close> returns no query, and
  \<^verbatim>\<open>executor\<close> returns with the buffer cleared, the error shown, the line as entered
  pushed to the history, nothing run, and the prompt restarted with
  \<^verbatim>\<open>AfterPromptCloseRestart\<close>: the session goes on. That the buffer is put to the
  resolver means the line is not empty and the initialisation is complete or completes.
\<close>

theorem executor_resolution_error:
  assumes line: "TrimSpace rawLine \<noteq> []"
    and init: "isInitialised c \<or> initDataError env = None"
    and res: "ResolveQueryAndArgsFromSQLString env
                (Join (interactiveBuffer c @ [TrimSpace rawLine]) newline) = Inl err"
  shows "fst (getQuery env (TrimSpace rawLine) (locked c)) = None \<and>
     (\<exists>c' es. executor env rawLine c = Inr c' \<and>
        effects c' = effects c @ es @ [PromptCancelled, ExecutionUnlocked] \<and>
        ShowError err \<in> set es \<and>
        interactiveBuffer c' = [] \<and>
        history c' = history c @ [HistoryPush (TrimSpace rawLine)] \<and>
        executions c' = executions c \<and>
        afterClose c' = AfterPromptCloseRestart)"
proof -
  let ?line = "TrimSpace rawLine"
  have out: "lineOutcome env ?line c = ResolveFailed err"
    using assms by (auto simp: lineOutcome_def Let_def)
  have none: "fst (getQuery env ?line (locked c)) = None"
    using out by (simp add: getQuery_result lineOutcome_locked)
  have ns: "\<And>rq named. lineOutcome env ?line c \<noteq> Submitted rq named"
    using out by simp
  from executor_not_submitted[OF ns] obtain c' es where
    e: "executor env rawLine c = Inr c'"
    and g: "effects (snd (getQuery env ?line (locked c))) = effects c @ es"
    and f: "effects c' = effects c @ es @ [PromptCancelled, ExecutionUnlocked]"
    and a: "afterClose c' = AfterPromptCloseRestart"
    and x: "executions c' = executions c"
    and h: "history c' = history c @ map HistoryPush (historyEntry ?line (lineOutcome env ?line c))"
    and b: "interactiveBuffer c' =
       (case lineOutcome env ?line c of
          EmptyLine \<Rightarrow> interactiveBuffer c
        | Continuation \<Rightarrow> interactiveBuffer c @ [?line]
        | _ \<Rightarrow> [])"
    by blast
  have init': "isInitialised (locked c) \<or> initDataError env = None"
    using init by (simp add: locked_def isInitialised_def effect_def)
  have res': "ResolveQueryAndArgsFromSQLString env
                (Join (interactiveBuffer (locked c) @ [?line]) newline) = Inl err"
    using res by (simp add: locked_simps)
  from getQuery_shows_error[OF line init' res'] obtain es' where
    g': "effects (snd (getQuery env ?line (locked c))) = effects (locked c) @ es'"
    and s: "ShowError err \<in> set es'" by blast
  have "es = ExecutionLocked # es'"
    using g g' by (simp add: locked_def effect_def)
  then have s': "ShowError err \<in> set es" using s by simp
  have h': "history c' = history c @ [HistoryPush ?line]" using h out by simp
  have b': "interactiveBuffer c' = []" using b out by simp
  show ?thesis using none e f s' b' h' x a by blast
qed


text \<open>The theorem at the line \<open>query.x\<close>, which names no query.\<close>

theorem executor_resolution_error_witness:
  "TrimSpace ''query.x '' \<noteq> [] \<and>
   isInitialised idleClient \<and>
   ResolveQueryAndArgsFromSQLString (sqlEnv True)
     (Join (interactiveBuffer idleClient @ [TrimSpace ''query.x '']) newline) = Inl ''not found'' \<and>
   fst (getQuery (sqlEnv True) (TrimSpace ''query.x '') (locked idleClient)) = None \<and>
   executor (sqlEnv True) ''query.x '' idleClient =
     Inr (idleClient\<lparr>effects := [ExecutionLocked, ShowError ''not found'',
            HistoryPush ''query.x'', PromptCancelled, ExecutionUnlocked]\<rparr>)"
proof -
  have t: "TrimSpace ''query.x '' = ''query.x''"
    by (simp add: TrimSpace_def runeWidth_def spaceRunes_def)
  have h1: "TrimSpace ''query.x '' \<noteq> []"
    by (simp add: t)
  have h2: "isInitialised idleClient"
    by (simp add: isInitialised_def idleClient_def)
  have h3: "ResolveQueryAndArgsFromSQLString (sqlEnv True)
     (Join (interactiveBuffer idleClient @ [TrimSpace ''query.x '']) newline) = Inl ''not found''"
    by (simp add: t sqlEnv_def idleClient_def)
  have n: "fst (getQuery (sqlEnv True) (TrimSpace ''query.x '') (locked idleClient)) = None"
    using executor_resolution_error[OF h1 disjI1[OF h2] h3] by (rule conjunct1)
  have ev: "executor (sqlEnv True) ''query.x '' idleClient =
     Inr (idleClient\<lparr>effects := [ExecutionLocked, ShowError ''not found'',
            HistoryPush ''query.x'', PromptCancelled, ExecutionUnlocked]\<rparr>)"
    by (simp add: eval_defs)
  show ?thesis by (intro conjI h1 h2 h3 n ev)
qed











text \<open>
  C7. An input is submitted when it is not left in the buffer as a continuation: the
  decision to execute is positive. When the text resolved for a submitted input is, once
  trimmed, the terminator alone, \<^verbatim>\<open>executor\<close> returns with nothing run, nothing pushed
  to the history, the buffer empty and the prompt restarted.
\<close>

theorem executor_bare_terminator:
  assumes line: "TrimSpace rawLine \<noteq> []"
    and init: "isInitialised c \<or> initDataError env = None"
    and res: "ResolveQueryAndArgsFromSQLString env
                (Join (interactiveBuffer c @ [TrimSpace rawLine]) newline) = Inr (rq, provider)"
    and submitted: "shouldExecute env (Join (interactiveBuffer c @ [TrimSpace rawLine]) newline)
                      (provider \<noteq> None)"
    and bare: "TrimSpace (ExecuteSQL rq) = '';''"
  shows "\<exists>c' es. executor env rawLine c = Inr c' \<and>
     effects c' = effects c @ es @ [PromptCancelled, ExecutionUnlocked] \<and>
     afterClose c' = AfterPromptCloseRestart \<and>
     executions c' = executions c \<and>
     history c' = history c \<and>
     interactiveBuffer c' = []"
proof -
  let ?line = "TrimSpace rawLine"
  have out: "lineOutcome env ?line c = BareTerminator"
    using assms by (auto simp: lineOutcome_def Let_def)
  have ns: "\<And>rq named. lineOutcome env ?line c \<noteq> Submitted rq named"
    using out by simp
  from executor_not_submitted[OF ns] obtain c' es where
    e: "executor env rawLine c = Inr c'"
    and f: "effects c' = effects c @ es @ [PromptCancelled, ExecutionUnlocked]"
    and a: "afterClose c' = AfterPromptCloseRestart"
    and x: "executions c' = executions c"
    and h: "history c' = history c @ map HistoryPush (historyEntry ?line (lineOutcome env ?line c))"
    and b: "interactiveBuffer c' =
       (case lineOutcome env ?line c of
          EmptyLine \<Rightarrow> interactiveBuffer c
        | Continuation \<Rightarrow> interactiveBuffer c @ [?line]
        | _ \<Rightarrow> [])"
    by blast
  have h': "history c' = history c" using h out by simp
  have b': "interactiveBuffer c' = []" using b out by simp
  show ?thesis using e f a x h' b' by blast
qed


text \<open>The theorem at the line made of a terminator, with nothing buffered.\<close>

theorem executor_bare_terminator_witness:
  "TrimSpace '';'' \<noteq> [] \<and>
   isInitialised idleClient \<and>
   ResolveQueryAndArgsFromSQLString (sqlEnv True)
     (Join (interactiveBuffer idleClient @ [TrimSpace '';'']) newline) =
       Inr (\<lparr>ExecuteSQL = '';'', Args = []\<rparr>, None) \<and>
   shouldExecute (sqlEnv True) (Join (interactiveBuffer idleClient @ [TrimSpace '';'']) newline)
     (None \<noteq> (None :: string option)) \<and>
   TrimSpace (ExecuteSQL \<lparr>ExecuteSQL = '';'', Args = []\<rparr>) = '';'' \<and>
   (\<exists>c' es. executor (sqlEnv True) '';'' idleClient = Inr c' \<and>
     effects c' = effects idleClient @ es @ [PromptCancelled, ExecutionUnlocked] \<and>
     afterClose c' = AfterPromptCloseRestart \<and>
     executions c' = executions idleClient \<and>
     history c' = history idleClient \<and>
     interactiveBuffer c' = []) \<and>
   executor (sqlEnv True) '';'' idleClient =
     Inr (idleClient\<lparr>effects := [ExecutionLocked, PromptCancelled, PromptCancelled,
            ExecutionUnlocked]\<rparr>)"
proof -
  have t: "TrimSpace '';'' = '';''"
    by (simp add: TrimSpace_def runeWidth_def spaceRunes_def)
  have h1: "TrimSpace '';'' \<noteq> []"
    by (simp add: t)
  have h2: "isInitialised idleClient"
    by (simp add: isInitialised_def idleClient_def)
  have h3: "ResolveQueryAndArgsFromSQLString (sqlEnv True)
     (Join (interactiveBuffer idleClient @ [TrimSpace '';'']) newline) =
       Inr (\<lparr>ExecuteSQL = '';'', Args = []\<rparr>, None)"
    by (simp add: t sqlEnv_def idleClient_def)
  have h4: "shouldExecute (sqlEnv True)
     (Join (interactiveBuffer idleClient @ [TrimSpace '';'']) newline)
     (None \<noteq> (None :: string option))"
    by (simp add: t sqlEnv_def idleClient_def shouldExecute_def HasSuffix_def)
  have h5: "TrimSpace (ExecuteSQL \<lparr>ExecuteSQL = '';'', Args = []\<rparr>) = '';''"
    by (simp add: t)
  note c = executor_bare_terminator[OF h1 disjI1[OF h2] h3 h4 h5]
  have ev: "executor (sqlEnv True) '';'' idleClient =
     Inr (idleClient\<lparr>effects := [ExecutionLocked, PromptCancelled, PromptCancelled,
            ExecutionUnlocked]\<rparr>)"
    by (simp add: eval_defs)
  show ?thesis by (intro conjI h1 h2 h3 h4 h5 c ev)
qed


text \<open>
  A line that is left in the buffer is not submitted, whatever its resolved text: in
  multi-line mode \<open>empty.sql\<close>, a file that holds a lone terminator, is buffered like
  any other line without a terminator.
\<close>

lemma executor_buffers_unterminated_file:
  "executor (sqlEnv True) ''empty.sql'' idleClient =
     Inr (idleClient\<lparr>interactiveBuffer := [''empty.sql''],
            effects := [ExecutionLocked, PromptCancelled, ExecutionUnlocked]\<rparr>)"
  by (simp add: eval_defs)

text \<open>
  C2, as the code has it. \<^verbatim>\<open>shouldExecute\<close> is handed the joined buffer and whether the
  resolver found a query provider: the terminator is looked for at the end of the joined
  buffer, not of the resolved text. When the decision is negative, \<^verbatim>\<open>getQuery\<close> returns
  no query and \<^verbatim>\<open>executor\<close> runs nothing, pushes nothing to the history and keeps the
  line in the buffer; when it is positive, the resolved query is handed back unless it is
  a bare terminator.
\<close>

theorem shouldExecute_decision:
  assumes line: "TrimSpace rawLine \<noteq> []"
    and init: "isInitialised c \<or> initDataError env = None"
    and res: "ResolveQueryAndArgsFromSQLString env
                (Join (interactiveBuffer c @ [TrimSpace rawLine]) newline) = Inr (rq, provider)"
  shows "shouldExecute env (Join (interactiveBuffer c @ [TrimSpace rawLine]) newline)
           (provider \<noteq> None) =
         (provider \<noteq> None \<or> \<not> ArgMultiLine env \<or>
          IsMetaQuery env (Join (interactiveBuffer c @ [TrimSpace rawLine]) newline) \<or>
          HasSuffix (Join (interactiveBuffer c @ [TrimSpace rawLine]) newline) '';'') \<and>
     (if shouldExecute env (Join (interactiveBuffer c @ [TrimSpace rawLine]) newline)
           (provider \<noteq> None)
      then fst (getQuery env (TrimSpace rawLine) (locked c)) =
             (if TrimSpace (ExecuteSQL rq) = '';'' then None else Some rq)
      else fst (getQuery env (TrimSpace rawLine) (locked c)) = None \<and>
           (\<exists>c' es. executor env rawLine c = Inr c' \<and>
              effects c' = effects c @ es @ [PromptCancelled, ExecutionUnlocked] \<and>
              executions c' = executions c \<and>
              history c' = history c \<and>
              interactiveBuffer c' = interactiveBuffer c @ [TrimSpace rawLine]))"
proof -
  let ?line = "TrimSpace rawLine"
  let ?joined = "Join (interactiveBuffer c @ [?line]) newline"
  have d: "shouldExecute env ?joined (provider \<noteq> None) =
         (provider \<noteq> None \<or> \<not> ArgMultiLine env \<or> IsMetaQuery env ?joined \<or>
          HasSuffix ?joined '';'')"
    by (simp add: shouldExecute_def)
  have r: "fst (getQuery env ?line (locked c)) =
     (case lineOutcome env ?line c of Submitted resolved named \<Rightarrow> Some resolved | _ \<Rightarrow> None)"
    by (simp add: getQuery_result lineOutcome_locked)
  show ?thesis
  proof (cases "shouldExecute env ?joined (provider \<noteq> None)")
    case True
    have out: "lineOutcome env ?line c =
       (if TrimSpace (ExecuteSQL rq) = '';'' then BareTerminator
        else Submitted rq (provider \<noteq> None))"
      using line init res True by (auto simp: lineOutcome_def Let_def)
    have "fst (getQuery env ?line (locked c)) =
             (if TrimSpace (ExecuteSQL rq) = '';'' then None else Some rq)"
      using r out by simp
    then show ?thesis using d True by simp
  next
    case False
    have out: "lineOutcome env ?line c = Continuation"
      using line init res False by (auto simp: lineOutcome_def Let_def)
    have ns: "\<And>rq named. lineOutcome env ?line c \<noteq> Submitted rq named"
      using out by simp
    from executor_not_submitted[OF ns] obtain c' es where
      e: "executor env rawLine c = Inr c'"
      and f: "effects c' = effects c @ es @ [PromptCancelled, ExecutionUnlocked]"
      and x: "executions c' = executions c"
      and h: "history c' = history c @ map HistoryPush (historyEntry ?line (lineOutcome env ?line c))"
      and b: "interactiveBuffer c' =
         (case lineOutcome env ?line c of
            EmptyLine \<Rightarrow> interactiveBuffer c
          | Continuation \<Rightarrow> interactiveBuffer c @ [?line]
          | _ \<Rightarrow> [])"
      by blast
    have h': "history c' = history c" using h out by simp
    have b': "interactiveBuffer c' = interactiveBuffer c @ [?line]" using b out by simp
    have n: "fst (getQuery env ?line (locked c)) = None" using r out by simp
    have "\<exists>c' es. executor env rawLine c = Inr c' \<and>
              effects c' = effects c @ es @ [PromptCancelled, ExecutionUnlocked] \<and>
              executions c' = executions c \<and>
              history c' = history c \<and>
              interactiveBuffer c' = interactiveBuffer c @ [?line]"
      using e f x h' b' by blast
    then show ?thesis using d False n by simp
  qed
qed


text \<open>
  The theorem at the line \<open>select\<close> in multi-line mode, which is buffered; a directive
  without a terminator runs at once.
\<close>

theorem shouldExecute_decision_witness:
  "TrimSpace ''select'' \<noteq> [] \<and>
   isInitialised idleClient \<and>
   ResolveQueryAndArgsFromSQLString (sqlEnv True)
     (Join (interactiveBuffer idleClient @ [TrimSpace ''select'']) newline) =
       Inr (\<lparr>ExecuteSQL = ''select'', Args = []\<rparr>, None) \<and>
   shouldExecute (sqlEnv True) ''select'' False = False \<and>
   fst (getQuery (sqlEnv True) (TrimSpace ''select'') (locked idleClient)) = None \<and>
   executor (sqlEnv True) ''select'' idleClient =
     Inr (idleClient\<lparr>interactiveBuffer := [''select''],
            effects := [ExecutionLocked, PromptCancelled, ExecutionUnlocked]\<rparr>) \<and>
   executor (sqlEnv True) ''.help'' idleClient =
     Inr (idleClient\<lparr>queryContexts := 1,
            effects := [ExecutionLocked, HistoryPush ''.help'', PromptRender,
              MetaqueryHandled ''.help'', QueryCancelled 0, PromptCancelled,
              ExecutionUnlocked]\<rparr>)"
proof -
  have t: "TrimSpace ''select'' = ''select''"
    by (simp add: TrimSpace_def runeWidth_def spaceRunes_def)
  have h1: "TrimSpace ''select'' \<noteq> []"
    by (simp add: t)
  have h2: "isInitialised idleClient"
    by (simp add: isInitialised_def idleClient_def)
  have h3: "ResolveQueryAndArgsFromSQLString (sqlEnv True)
     (Join (interactiveBuffer idleClient @ [TrimSpace ''select'']) newline) =
       Inr (\<lparr>ExecuteSQL = ''select'', Args = []\<rparr>, None)"
    by (simp add: t sqlEnv_def idleClient_def)
  have s: "shouldExecute (sqlEnv True) ''select'' False = False"
    by (simp add: sqlEnv_def shouldExecute_def HasSuffix_def)
  have j: "Join (interactiveBuffer idleClient @ [TrimSpace ''select'']) newline = ''select''"
    by (simp add: t idleClient_def)
  have n: "fst (getQuery (sqlEnv True) (TrimSpace ''select'') (locked idleClient)) = None"
    using shouldExecute_decision[OF h1 disjI1[OF h2] h3] s unfolding j by simp
  have ev: "executor (sqlEnv True) ''select'' idleClient =
     Inr (idleClient\<lparr>interactiveBuffer := [''select''],
            effects := [ExecutionLocked, PromptCancelled, ExecutionUnlocked]\<rparr>)"
    by (simp add: eval_defs)
  have ev2: "executor (sqlEnv True) ''.help'' idleClient =
     Inr (idleClient\<lparr>queryContexts := 1,
            effects := [ExecutionLocked, HistoryPush ''.help'', PromptRender,
              MetaqueryHandled ''.help'', QueryCancelled 0, PromptCancelled,
              ExecutionUnlocked]\<rparr>)"
    by (simp add: eval_defs)
  show ?thesis by (intro conjI h1 h2 h3 s n ev ev2)
qed


text \<open>
  C2 as the specification words it fails where the resolved text differs from the joined
  buffer: \<open>q.sql\<close> resolves to \<open>select 1;\<close>, which ends with the terminator, yet the
  line is buffered and nothing runs.
\<close>

theorem shouldExecute_resolved_text_counterexample:
  "ResolveQueryAndArgsFromSQLString (sqlEnv True) ''q.sql'' =
     Inr (\<lparr>ExecuteSQL = ''select 1;'', Args = []\<rparr>, None) \<and>
   shouldExecuteSpec False (ArgMultiLine (sqlEnv True)) (IsMetaQuery (sqlEnv True) ''q.sql'')
     ''select 1;'' = True \<and>
   shouldExecute (sqlEnv True) ''q.sql'' False = False \<and>
   executor (sqlEnv True) ''q.sql'' idleClient =
     Inr (idleClient\<lparr>interactiveBuffer := [''q.sql''],
            effects := [ExecutionLocked, PromptCancelled, ExecutionUnlocked]\<rparr>)"
  by (simp add: eval_defs shouldExecuteSpec_def)



section \<open>The cancel handler and the session controller: proofs\<close>

lemma cancelActiveQueryIfAny_keeps:
  "isInitialised (cancelActiveQueryIfAny c) = isInitialised c"
  "afterClose (cancelActiveQueryIfAny c) = afterClose c"
  "promptCancels (cancelActiveQueryIfAny c) = promptCancels c"
  "cancelActiveQuery (cancelActiveQueryIfAny c) = None"
  by (simp_all add: cancelActiveQueryIfAny_def isInitialised_def effect_def promptCancels_def
      split: option.splits)

lemma cancelActiveQueryIfAny_idle:
  "cancelActiveQuery c = None \<Longrightarrow> cancelActiveQueryIfAny c = c"
  by (simp add: cancelActiveQueryIfAny_def)

lemma cancelHandler_interrupts:
  assumes "isInitialised c" and "set sigs \<subseteq> {SigInt}"
  shows "cancelHandler sigs c = (True, if sigs = [] then c else cancelActiveQueryIfAny c)"
  using assms
proof (induction sigs arbitrary: c)
  case Nil
  show ?case by simp
next
  case (Cons s sigs)
  then have s: "s = SigInt" and rest: "set sigs \<subseteq> {SigInt}" by auto
  have i: "isInitialised (cancelActiveQueryIfAny c)"
    using Cons.prems(1) by (simp add: cancelActiveQueryIfAny_keeps)
  have again: "cancelActiveQueryIfAny (cancelActiveQueryIfAny c) = cancelActiveQueryIfAny c"
    by (simp add: cancelActiveQueryIfAny_idle cancelActiveQueryIfAny_keeps)
  show ?case
    using Cons.IH[OF i rest] Cons.prems(1) s
    by (simp add: cancelHandlerStep_def again)
qed


lemma cancelHandler_starting:
  assumes "\<not> isInitialised c" and "sigs \<noteq> []" and "set sigs \<subseteq> {SigInt}"
  shows "cancelHandler sigs c = (False, ClosePrompt AfterPromptCloseExit c)"
proof (cases sigs)
  case Nil
  with assms show ?thesis by simp
next
  case (Cons s rest)
  with assms have "s = SigInt" by auto
  with Cons assms(1) show ?thesis by (simp add: cancelHandlerStep_def)
qed


text \<open>
  C4. Before the initialisation has completed an interrupt is an exit request: the
  handler calls \<^verbatim>\<open>ClosePrompt(AfterPromptCloseExit)\<close> and returns, and with the client
  so left the controller, on the prompt's result, goes into its teardown; interrupts that follow
  find no handler. Once the client
  is initialised an interrupt cancels the active query if there is one and does nothing
  otherwise, and no run of interrupts closes the session: the handler goes on waiting,
  \<^verbatim>\<open>afterClose\<close> keeps its value, the prompt's context is not cancelled, and at an idle
  prompt the client is left as it was.
\<close>

theorem cancelHandler_interrupt:
  "(\<not> isInitialised c \<longrightarrow>
      cancelHandlerStep SigInt c = (False, ClosePrompt AfterPromptCloseExit c) \<and>
      afterClose (ClosePrompt AfterPromptCloseExit c) = AfterPromptCloseExit \<and>
      effects (ClosePrompt AfterPromptCloseExit c) = effects c @ [PromptCancelled] \<and>
      fst (promptResultReceived (ClosePrompt AfterPromptCloseExit c)) \<and>
      (\<forall>sigs. sigs \<noteq> [] \<and> set sigs \<subseteq> {SigInt} \<longrightarrow>
         cancelHandler sigs c = (False, ClosePrompt AfterPromptCloseExit c))) \<and>
   (isInitialised c \<longrightarrow>
      (\<forall>n. cancelActiveQuery c = Some n \<longrightarrow>
         cancelHandlerStep SigInt c =
           (True, c\<lparr>cancelActiveQuery := None, effects := effects c @ [QueryCancelled n]\<rparr>)) \<and>
      (cancelActiveQuery c = None \<longrightarrow> cancelHandlerStep SigInt c = (True, c)) \<and>
      (\<forall>sigs. set sigs \<subseteq> {SigInt} \<longrightarrow>
         (\<exists>c'. cancelHandler sigs c = (True, c') \<and>
            afterClose c' = afterClose c \<and>
            promptCancels c' = promptCancels c \<and>
            (cancelActiveQuery c = None \<longrightarrow> c' = c))))"
proof (intro conjI impI allI)
  assume n: "\<not> isInitialised c"
  show "cancelHandlerStep SigInt c = (False, ClosePrompt AfterPromptCloseExit c)"
    using n by (simp add: cancelHandlerStep_def)
  show "afterClose (ClosePrompt AfterPromptCloseExit c) = AfterPromptCloseExit"
    by (simp add: ClosePrompt_def effect_def)
  show "effects (ClosePrompt AfterPromptCloseExit c) = effects c @ [PromptCancelled]"
    by (simp add: ClosePrompt_def effect_def)
  show "fst (promptResultReceived (ClosePrompt AfterPromptCloseExit c))"
    by (simp add: promptResultReceived_def ClosePrompt_def effect_def Let_def)
next
  fix sigs :: "signal list"
  assume n: "\<not> isInitialised c" and s: "sigs \<noteq> [] \<and> set sigs \<subseteq> {SigInt}"
  show "cancelHandler sigs c = (False, ClosePrompt AfterPromptCloseExit c)"
    using cancelHandler_starting[OF n] s by simp
next
  fix n
  assume "isInitialised c" and "cancelActiveQuery c = Some n"
  then show "cancelHandlerStep SigInt c =
           (True, c\<lparr>cancelActiveQuery := None, effects := effects c @ [QueryCancelled n]\<rparr>)"
    by (simp add: cancelHandlerStep_def cancelActiveQueryIfAny_def effect_def)
next
  assume "isInitialised c" and "cancelActiveQuery c = None"
  then show "cancelHandlerStep SigInt c = (True, c)"
    by (simp add: cancelHandlerStep_def cancelActiveQueryIfAny_def)
next
  fix sigs
  assume i: "isInitialised c" and s: "set sigs \<subseteq> {SigInt}"
  let ?c' = "if sigs = [] then c else cancelActiveQueryIfAny c"
  have r: "cancelHandler sigs c = (True, ?c')"
    by (rule cancelHandler_interrupts[OF i s])
  have a: "afterClose ?c' = afterClose c"
    by (simp add: cancelActiveQueryIfAny_keeps)
  have p: "promptCancels ?c' = promptCancels c"
    by (simp add: cancelActiveQueryIfAny_keeps)
  have d: "cancelActiveQuery c = None \<longrightarrow> ?c' = c"
    by (simp add: cancelActiveQueryIfAny_idle)
  show "\<exists>c'. cancelHandler sigs c = (True, c') \<and>
            afterClose c' = afterClose c \<and>
            promptCancels c' = promptCancels c \<and>
            (cancelActiveQuery c = None \<longrightarrow> c' = c)"
    by (intro exI[of _ ?c'] conjI r a p d)
qed


text \<open>
  The theorem at a client that is still starting, at an idle client, and at a client with
  the query context 7 in flight.
\<close>

theorem cancelHandler_interrupt_witness:
  "\<not> isInitialised startingClient \<and>
   cancelHandlerStep SigInt startingClient =
     (False, ClosePrompt AfterPromptCloseExit startingClient) \<and>
   fst (promptResultReceived (ClosePrompt AfterPromptCloseExit startingClient)) \<and>
   isInitialised idleClient \<and>
   cancelActiveQuery idleClient = None \<and>
   cancelHandlerStep SigInt idleClient = (True, idleClient) \<and>
   cancelHandler [SigInt, SigInt, SigInt] idleClient = (True, idleClient) \<and>
   cancelActiveQuery (idleClient\<lparr>cancelActiveQuery := Some 7\<rparr>) = Some 7 \<and>
   cancelHandler [SigInt, SigInt] (idleClient\<lparr>cancelActiveQuery := Some 7\<rparr>) =
     (True, idleClient\<lparr>effects := [QueryCancelled 7]\<rparr>)"
proof -
  have h1: "\<not> isInitialised startingClient"
    by (simp add: startingClient_def idleClient_def isInitialised_def)
  have h2: "isInitialised idleClient"
    by (simp add: idleClient_def isInitialised_def)
  have h3: "cancelActiveQuery idleClient = None"
    by (simp add: idleClient_def)
  note t1 = cancelHandler_interrupt[of startingClient, THEN conjunct1, rule_format, OF h1]
  note t2 = cancelHandler_interrupt[of idleClient, THEN conjunct2, rule_format, OF h2]
  have a: "cancelHandlerStep SigInt startingClient =
     (False, ClosePrompt AfterPromptCloseExit startingClient)"
    using t1 by simp
  have b: "fst (promptResultReceived (ClosePrompt AfterPromptCloseExit startingClient))"
    using t1 by simp
  have c: "cancelHandlerStep SigInt idleClient = (True, idleClient)"
    using t2 h3 by simp
  have d: "cancelHandler [SigInt, SigInt, SigInt] idleClient = (True, idleClient)"
    by (simp add: cancelHandlerStep_def idleClient_def isInitialised_def
        cancelActiveQueryIfAny_def)
  have e: "cancelActiveQuery (idleClient\<lparr>cancelActiveQuery := Some 7\<rparr>) = Some 7"
    by simp
  have f: "cancelHandler [SigInt, SigInt] (idleClient\<lparr>cancelActiveQuery := Some 7\<rparr>) =
     (True, idleClient\<lparr>effects := [QueryCancelled 7]\<rparr>)"
    by (simp add: cancelHandlerStep_def idleClient_def isInitialised_def
        cancelActiveQueryIfAny_def effect_def)
  show ?thesis by (intro conjI h1 a b h2 h3 c d e f)
qed


lemma promptResultReceived_returns:
  assumes "promptResultReceived c = (True, c')"
  shows "effects c' = effects c @ [HistoryPersist, PromptLineCleared] @
           (if cancelNotificationListener c' \<noteq> None then [NotificationListenerCancelled] else []) \<and>
         cancelNotificationListener c' = cancelNotificationListener c"
  using assms
  by (auto simp: promptResultReceived_def effect_def Let_def split: if_splits option.splits)

lemma selectLoop_returns:
  assumes "selectLoop events c = Some (r, c')"
  shows "(case r of
            None \<Rightarrow> (\<exists>pre. effects c' = pre @ [HistoryPersist, PromptLineCleared] @
                        (if cancelNotificationListener c' \<noteq> None
                         then [NotificationListenerCancelled] else []))
          | Some v \<Rightarrow> (\<exists>others. (others, LoopPanicked v) \<in> set events))"
  using assms
proof (induction events c rule: selectLoop.induct)
  case (1 c)
  then show ?case by simp
next
  case (2 others i rest c)
  from 2 show ?case by (auto split: option.splits)
next
  case (3 others rest c)
  obtain b c1 where p: "promptResultReceived (others c) = (b, c1)"
    by (cases "promptResultReceived (others c)")
  show ?case
  proof (cases b)
    case True
    with 3 p have r: "r = None" and c': "c' = c1" by simp_all
    have p': "promptResultReceived (others c) = (True, c1)" using p True by simp
    from promptResultReceived_returns[OF p']
    have "effects c1 = effects (others c) @ [HistoryPersist, PromptLineCleared] @
           (if cancelNotificationListener c1 \<noteq> None then [NotificationListenerCancelled] else [])"
      by (rule conjunct1)
    then have "\<exists>pre. effects c1 = pre @ [HistoryPersist, PromptLineCleared] @
           (if cancelNotificationListener c1 \<noteq> None then [NotificationListenerCancelled] else [])"
      by (rule exI)
    then show ?thesis unfolding r c' by simp
  next
    case False
    with 3 p show ?thesis by (auto split: option.splits)
  qed
next
  case (4 others v rest c)
  then show ?case by auto
qed

lemma InteractivePrompt_returns_on_exit:
  assumes "afterClose (others (runInteractivePromptAsync (effect StatusMessage
             (createPromptContext (startCancelHandler c))))) = AfterPromptCloseExit"
  shows "\<exists>c'. InteractivePrompt ((others, PromptResultArrived) # rest) c = Some c'"
  using assms
  by (simp add: InteractivePrompt_def promptResultReceived_def Let_def effect_def)


text \<open>
  C5, as the code has it. Whenever \<^verbatim>\<open>InteractivePrompt\<close> returns, the deferred
  teardown has run last, in this order: the cancel handler is told to quit (on which it
  issues the final cancel and returns), the quit channel is closed, the init data is
  cleaned up, the result stream is closed. When no call in the loop panicked, these come
  right after the persisting of the history, the clearing of the prompt line and the
  cancellation of the notification listener, which is made exactly when a listener is
  registered.
\<close>

theorem InteractivePrompt_teardown:
  assumes "InteractivePrompt events c = Some c'"
  shows "\<exists>pre. effects c' = pre @ [QuitSent, QuitClosed, InitDataCleanup, StreamerClosed] \<and>
     cancelHandlerStep Quit c' = (False, cancelActiveQueryIfAny c') \<and>
     ((\<forall>ev \<in> set events. \<forall>v. snd ev \<noteq> LoopPanicked v) \<longrightarrow>
        (\<exists>pre'. pre = pre' @ [HistoryPersist, PromptLineCleared] @
           (if cancelNotificationListener c' \<noteq> None
            then [NotificationListenerCancelled] else [])))"
proof -
  let ?c1 = "runInteractivePromptAsync (effect StatusMessage
               (createPromptContext (startCancelHandler c)))"
  from assms obtain r c2 where
    l: "selectLoop events ?c1 = Some (r, c2)" and c': "c' = deferredCleanup r c2"
    by (auto simp: InteractivePrompt_def Let_def split: option.splits)
  let ?pre = "effects (case r of Some v \<Rightarrow> effect (ShowError v) c2 | None \<Rightarrow> c2)"
  have e: "effects c' = ?pre @ [QuitSent, QuitClosed, InitDataCleanup, StreamerClosed]"
    unfolding c' by (simp add: deferredCleanup_def effect_def Let_def)
  have k: "cancelNotificationListener c' = cancelNotificationListener c2"
    unfolding c' by (simp add: deferredCleanup_def effect_def Let_def split: option.splits)
  have q: "cancelHandlerStep Quit c' = (False, cancelActiveQueryIfAny c')"
    by (simp add: cancelHandlerStep_def)
  have n: "(\<forall>ev \<in> set events. \<forall>v. snd ev \<noteq> LoopPanicked v) \<longrightarrow>
        (\<exists>pre'. ?pre = pre' @ [HistoryPersist, PromptLineCleared] @
           (if cancelNotificationListener c' \<noteq> None
            then [NotificationListenerCancelled] else []))"
  proof
    assume np: "\<forall>ev \<in> set events. \<forall>v. snd ev \<noteq> LoopPanicked v"
    have "r = None"
    proof (cases r)
      case None
      then show ?thesis .
    next
      case (Some v)
      with selectLoop_returns[OF l] obtain others where
        "(others, LoopPanicked v) \<in> set events" by auto
      with np show ?thesis by force
    qed
    with selectLoop_returns[OF l]
    show "\<exists>pre'. ?pre = pre' @ [HistoryPersist, PromptLineCleared] @
           (if cancelNotificationListener c' \<noteq> None
            then [NotificationListenerCancelled] else [])"
      unfolding k by simp
  qed
  show ?thesis by (intro exI[of _ ?pre] conjI e q n)
qed


text \<open>
  The theorem at a session that is initialised and then closed by an exit request, with
  a notification listener registered.
\<close>

theorem InteractivePrompt_teardown_witness:
  "InteractivePrompt [(id, InitResultArrived Ready),
       (ClosePrompt AfterPromptCloseExit, PromptResultArrived)]
     (startingClient\<lparr>cancelNotificationListener := Some ()\<rparr>) =
     Some (idleClient\<lparr>afterClose := AfterPromptCloseExit,
             cancelNotificationListener := Some (), hidePrompt := True,
             effects := [CancelHandlerStarted, PromptContextCreated, StatusMessage,
               PromptStarted, PromptCancelled, HistoryPersist, PromptLineCleared,
               NotificationListenerCancelled, QuitSent, QuitClosed, InitDataCleanup,
               StreamerClosed]\<rparr>) \<and>
   list_all (\<lambda>ev. case snd ev of LoopPanicked v \<Rightarrow> False | _ \<Rightarrow> True)
     [(id, InitResultArrived Ready), (ClosePrompt AfterPromptCloseExit, PromptResultArrived)] \<and>
   (\<exists>pre pre'. effects (idleClient\<lparr>afterClose := AfterPromptCloseExit,
             cancelNotificationListener := Some (), hidePrompt := True,
             effects := [CancelHandlerStarted, PromptContextCreated, StatusMessage,
               PromptStarted, PromptCancelled, HistoryPersist, PromptLineCleared,
               NotificationListenerCancelled, QuitSent, QuitClosed, InitDataCleanup,
               StreamerClosed]\<rparr>) =
           pre @ [QuitSent, QuitClosed, InitDataCleanup, StreamerClosed] \<and>
      pre = pre' @ [HistoryPersist, PromptLineCleared, NotificationListenerCancelled])"
proof -
  let ?events = "[(id :: InteractiveClient \<Rightarrow> InteractiveClient, InitResultArrived Ready),
       (ClosePrompt AfterPromptCloseExit, PromptResultArrived)]"
  let ?c' = "idleClient\<lparr>afterClose := AfterPromptCloseExit,
             cancelNotificationListener := Some (), hidePrompt := True,
             effects := [CancelHandlerStarted, PromptContextCreated, StatusMessage,
               PromptStarted, PromptCancelled, HistoryPersist, PromptLineCleared,
               NotificationListenerCancelled, QuitSent, QuitClosed, InitDataCleanup,
               StreamerClosed]\<rparr>"
  have ev: "InteractivePrompt ?events
     (startingClient\<lparr>cancelNotificationListener := Some ()\<rparr>) = Some ?c'"
    by (simp add: InteractivePrompt_def startCancelHandler_def createPromptContext_def
        runInteractivePromptAsync_def handleInitResult_def promptResultReceived_def
        deferredCleanup_def ClosePrompt_def effect_def startingClient_def idleClient_def
        Let_def)
  have np: "\<forall>ev \<in> set ?events. \<forall>v. snd ev \<noteq> LoopPanicked v"
    by simp
  have np': "list_all (\<lambda>ev. case snd ev of LoopPanicked v \<Rightarrow> False | _ \<Rightarrow> True) ?events"
    by simp
  from InteractivePrompt_teardown[OF ev] obtain pre where
    e: "effects ?c' = pre @ [QuitSent, QuitClosed, InitDataCleanup, StreamerClosed]"
    and n: "(\<forall>ev \<in> set ?events. \<forall>v. snd ev \<noteq> LoopPanicked v) \<longrightarrow>
        (\<exists>pre'. pre = pre' @ [HistoryPersist, PromptLineCleared] @
           (if cancelNotificationListener ?c' \<noteq> None
            then [NotificationListenerCancelled] else []))"
    by (elim exE conjE)
  from mp[OF n np] obtain pre' where
    p: "pre = pre' @ [HistoryPersist, PromptLineCleared] @
           (if cancelNotificationListener ?c' \<noteq> None
            then [NotificationListenerCancelled] else [])"
    by (elim exE)
  have p': "pre = pre' @ [HistoryPersist, PromptLineCleared, NotificationListenerCancelled]"
    using p by simp
  have concl: "\<exists>pre pre'. effects ?c' =
           pre @ [QuitSent, QuitClosed, InitDataCleanup, StreamerClosed] \<and>
      pre = pre' @ [HistoryPersist, PromptLineCleared, NotificationListenerCancelled]"
    by (intro exI[of _ pre] exI[of _ pre'] conjI e p')
  show ?thesis by (intro conjI ev np' concl)
qed


text \<open>
  C5 as the specification words it fails: the history is persisted and the notification
  listener stopped before the cancel handler is told to quit, so the final cancel comes
  after them, not first; and when a call in the loop panics, the history is not persisted
  and the listener is not stopped.
\<close>

theorem InteractivePrompt_order_counterexample:
  "InteractivePrompt [(ClosePrompt AfterPromptCloseExit, PromptResultArrived)]
     (idleClient\<lparr>cancelNotificationListener := Some ()\<rparr>) =
     Some (idleClient\<lparr>afterClose := AfterPromptCloseExit,
             cancelNotificationListener := Some (), hidePrompt := True,
             effects := [CancelHandlerStarted, PromptContextCreated, StatusMessage,
               PromptStarted, PromptCancelled, HistoryPersist, PromptLineCleared,
               NotificationListenerCancelled, QuitSent, QuitClosed, InitDataCleanup,
               StreamerClosed]\<rparr>) \<and>
   before HistoryPersist QuitSent
     [CancelHandlerStarted, PromptContextCreated, StatusMessage,
      PromptStarted, PromptCancelled, HistoryPersist, PromptLineCleared,
      NotificationListenerCancelled, QuitSent, QuitClosed, InitDataCleanup,
      StreamerClosed] \<and>
   before NotificationListenerCancelled QuitSent
     [CancelHandlerStarted, PromptContextCreated, StatusMessage,
      PromptStarted, PromptCancelled, HistoryPersist, PromptLineCleared,
      NotificationListenerCancelled, QuitSent, QuitClosed, InitDataCleanup,
      StreamerClosed] \<and>
   \<not> before QuitSent HistoryPersist
     [CancelHandlerStarted, PromptContextCreated, StatusMessage,
      PromptStarted, PromptCancelled, HistoryPersist, PromptLineCleared,
      NotificationListenerCancelled, QuitSent, QuitClosed, InitDataCleanup,
      StreamerClosed] \<and>
   InteractivePrompt [(id, LoopPanicked ''panic'')]
     (idleClient\<lparr>cancelNotificationListener := Some ()\<rparr>) =
     Some (idleClient\<lparr>cancelNotificationListener := Some (),
             effects := [CancelHandlerStarted, PromptContextCreated, StatusMessage,
               PromptStarted, ShowError ''panic'', QuitSent, QuitClosed, InitDataCleanup,
               StreamerClosed]\<rparr>)"
  by (simp add: InteractivePrompt_def startCancelHandler_def createPromptContext_def
      runInteractivePromptAsync_def handleInitResult_def promptResultReceived_def
      deferredCleanup_def ClosePrompt_def effect_def idleClient_def before_def Let_def)



section \<open>The notification handler and the execution lock: proofs\<close>

lemma balanced_inCritical: "balanced h todo \<Longrightarrow> inCritical todo = h"
  by (induction h todo rule: balanced.induct) (auto simp: inCritical_def)

lemma balanced_handle: "balanced False (handleConnectionUpdateNotification r)"
  by (simp add: handleConnectionUpdateNotification_def split: option.splits sum.splits)

lemma balanced_executor: "balanced False (executorActions x)"
  by (simp add: executorActions_def split: execution.splits)

lemma perform_balanced:
  assumes "perform t a s = Some s'"
    and "balanced (executionLock s = Some t) (a # todo)"
    and "balanced (executionLock s = Some u) other"
    and "u \<noteq> t"
  shows "balanced (executionLock s' = Some t) todo \<and> balanced (executionLock s' = Some u) other"
  using assms
  by (cases a) (auto simp: perform_def split: if_splits)

lemma interleave_balanced:
  assumes "interleave schedule (d, l, s) = Some (d', l', s')"
    and "balanced (executionLock s = Some Dispatcher) d"
    and "balanced (executionLock s = Some Listener) l"
  shows "balanced (executionLock s' = Some Dispatcher) d' \<and>
         balanced (executionLock s' = Some Listener) l'"
  using assms
proof (induction schedule arbitrary: d l s)
  case Nil
  then show ?case by simp
next
  case (Cons t schedule)
  show ?case
  proof (cases t)
    case Dispatcher
    with Cons.prems(1) obtain a todo s1 where
      d: "d = a # todo" and p: "perform Dispatcher a s = Some s1"
      and i: "interleave schedule (todo, l, s1) = Some (d', l', s')"
      by (auto split: list.splits option.splits)
    from perform_balanced[OF p Cons.prems(2)[unfolded d] Cons.prems(3)]
    have "balanced (executionLock s1 = Some Dispatcher) todo"
      "balanced (executionLock s1 = Some Listener) l" by simp_all
    from Cons.IH[OF i this] show ?thesis .
  next
    case Listener
    with Cons.prems(1) obtain a todo s1 where
      l: "l = a # todo" and p: "perform Listener a s = Some s1"
      and i: "interleave schedule (d, todo, s1) = Some (d', l', s')"
      by (auto split: list.splits option.splits)
    from perform_balanced[OF p Cons.prems(3)[unfolded l] Cons.prems(2)]
    have "balanced (executionLock s1 = Some Dispatcher) d"
      "balanced (executionLock s1 = Some Listener) todo" by simp_all
    from Cons.IH[OF i this] show ?thesis .
  qed
qed


text \<open>
  C1, as the code has it. In every run of \<^verbatim>\<open>executor\<close> against
  \<^verbatim>\<open>handleConnectionUpdateNotification\<close> that starts with the lock free, the two are
  never both in their critical sections. The handler's critical section holds the refresh
  of the sessions only: every store of cached state comes before the handler takes the
  lock, and a handler that stops at a failed step never takes it.
\<close>

theorem refresh_excludes_execution:
  assumes free: "executionLock s = None"
    and run: "interleave schedule
                (executorActions x, handleConnectionUpdateNotification r, s) = Some (d, l, s')"
  shows "\<not> (inCritical d \<and> inCritical l) \<and>
     (\<exists>stores. (handleConnectionUpdateNotification r = stores \<or>
                 handleConnectionUpdateNotification r =
                   stores @ [LockExecution, RefreshSessions, UnlockExecution]) \<and>
        LockExecution \<notin> set stores \<and> RefreshSessions \<notin> set stores)"
proof
  have bd: "balanced (executionLock s = Some Dispatcher) (executorActions x)"
    using free by (simp add: balanced_executor)
  have bl: "balanced (executionLock s = Some Listener) (handleConnectionUpdateNotification r)"
    using free by (simp add: balanced_handle)
  from interleave_balanced[OF run bd bl]
  have "inCritical d = (executionLock s' = Some Dispatcher)"
    "inCritical l = (executionLock s' = Some Listener)"
    by (simp_all add: balanced_inCritical)
  then show "\<not> (inCritical d \<and> inCritical l)" by auto
next
  show "\<exists>stores. (handleConnectionUpdateNotification r = stores \<or>
                 handleConnectionUpdateNotification r =
                   stores @ [LockExecution, RefreshSessions, UnlockExecution]) \<and>
        LockExecution \<notin> set stores \<and> RefreshSessions \<notin> set stores"
  proof (cases "\<exists>cm cfg md. connectionState r = Inr cm \<and> steampipeConfig r = Inr cfg \<and>
                  schemaFromDB r = Inr md")
    case True
    then obtain cm cfg md where ok: "connectionState r = Inr cm" "steampipeConfig r = Inr cfg"
      "schemaFromDB r = Inr md" by blast
    let ?stores = "LoadSchemaNames #
       (case schemaNamesError r of Some err \<Rightarrow> [LogError err] | None \<Rightarrow> []) @
       [StoreConnectionMap cm, StoreGlobalConfig cfg, StoreSchemaMetadata md,
        InitialiseSuggestions]"
    have "handleConnectionUpdateNotification r =
            ?stores @ [LockExecution, RefreshSessions, UnlockExecution]"
      using ok by (simp add: handleConnectionUpdateNotification_def)
    moreover have "LockExecution \<notin> set ?stores \<and> RefreshSessions \<notin> set ?stores"
      by (simp split: option.splits)
    ultimately show ?thesis by blast
  next
    case False
    have "LockExecution \<notin> set (handleConnectionUpdateNotification r) \<and>
          RefreshSessions \<notin> set (handleConnectionUpdateNotification r)"
      using False
      by (auto simp: handleConnectionUpdateNotification_def split: option.splits sum.splits)
    then show ?thesis by blast
  qed
qed


text \<open>
  The theorem at a reload that succeeds: once the handler holds the lock for the refresh,
  the executor cannot take it.
\<close>

theorem refresh_excludes_execution_witness:
  "executionLock staleCaches = None \<and>
   interleave [Listener, Listener, Listener, Listener, Listener, Listener, Dispatcher]
     (executorActions Statement, handleConnectionUpdateNotification freshReload, staleCaches) =
     None \<and>
   interleave [Listener, Listener, Listener, Listener, Listener, Listener]
     (executorActions Statement, handleConnectionUpdateNotification freshReload, staleCaches) =
     Some (executorActions Statement, [RefreshSessions, UnlockExecution],
           staleCaches\<lparr>executionLock := Some Listener, ConnectionMap := 1, GlobalConfig := 1,
             schemaMetadata := 1, suggestions := 1\<rparr>) \<and>
   inCritical [RefreshSessions, UnlockExecution] \<and>
   \<not> inCritical (executorActions Statement)"
proof -
  have free: "executionLock staleCaches = None"
    by (simp add: staleCaches_def)
  have blocked: "interleave [Listener, Listener, Listener, Listener, Listener, Listener, Dispatcher]
     (executorActions Statement, handleConnectionUpdateNotification freshReload, staleCaches) =
     None"
    by (simp add: executorActions_def handleConnectionUpdateNotification_def freshReload_def
        staleCaches_def perform_def)
  have run: "interleave [Listener, Listener, Listener, Listener, Listener, Listener]
     (executorActions Statement, handleConnectionUpdateNotification freshReload, staleCaches) =
     Some (executorActions Statement, [RefreshSessions, UnlockExecution],
           staleCaches\<lparr>executionLock := Some Listener, ConnectionMap := 1, GlobalConfig := 1,
             schemaMetadata := 1, suggestions := 1\<rparr>)"
    by (simp add: executorActions_def handleConnectionUpdateNotification_def freshReload_def
        staleCaches_def perform_def)
  have crit: "inCritical [RefreshSessions, UnlockExecution]"
    by (simp add: inCritical_def)
  from refresh_excludes_execution[OF free run] crit
  have "\<not> inCritical (executorActions Statement)" by simp
  with free blocked run crit show ?thesis by (intro conjI)
qed


text \<open>
  C1 as the specification words it fails: with the executor holding the lock for a
  metaquery the handler stores the new connection map, and the metaquery is handed the
  old schema metadata with the new connection map. A reload that fails at the
  configuration leaves the new connection map in place for good.
\<close>

theorem swap_outside_lock_counterexample:
  "interleave [Dispatcher, Listener, Listener, Dispatcher]
     (executorActions Metaquery, handleConnectionUpdateNotification freshReload, staleCaches) =
   Some ([UnlockExecution],
         [StoreGlobalConfig 1, StoreSchemaMetadata 1, InitialiseSuggestions,
          LockExecution, RefreshSessions, UnlockExecution],
         staleCaches\<lparr>executionLock := Some Dispatcher, ConnectionMap := 1,
           handlerInputs := [(0, 1)]\<rparr>) \<and>
   handleConnectionUpdateNotification (freshReload\<lparr>steampipeConfig := Inl ''no config''\<rparr>) =
     [LoadSchemaNames, StoreConnectionMap 1, LogError ''no config'']"
  by (simp add: executorActions_def handleConnectionUpdateNotification_def freshReload_def
      staleCaches_def perform_def)


end
